theory Spec2Isabelle
  imports Main "HOL-Library.AList"
begin

section \<open>Time values\<close>

text \<open>
  pandas keeps a \<^verbatim>\<open>Timestamp\<close> as a count of nanoseconds since the epoch and a
  \<^verbatim>\<open>Timedelta\<close> as a count of nanoseconds, both in 64 bits. They are modelled as
  integers of nanoseconds, and \<open>in_range\<close> holds of the counts pandas can hold: the 64-bit
  integers but the least, which stands for \<^verbatim>\<open>NaT\<close>. Arithmetic whose result leaves that
  range raises in pandas, and it raises in the model (also at the least 64-bit integer,
  where pandas' array arithmetic gives \<^verbatim>\<open>NaT\<close> instead). A value that is passed to a
  method as a \<^verbatim>\<open>Timestamp\<close> or a \<^verbatim>\<open>Timedelta\<close> is in range.

  A \<^verbatim>\<open>datetime.date\<close> is modelled as the number of days since 1970-01-01. The
  type ends at 9999-12-31, and adding a day there raises \<^verbatim>\<open>OverflowError\<close>.
\<close>

type_synonym instant = int
type_synonym date = int

datatype exn =
  OverflowError | OutOfBoundsDatetime | KeyError | IndexError | ValueError | TypeError
  | AttributeError

definition ts_min :: int where
  "ts_min = - 9223372036854775807"

definition ts_max :: int where
  "ts_max = 9223372036854775807"

definition in_range :: "int \<Rightarrow> bool" where
  "in_range v \<longleftrightarrow> ts_min \<le> v \<and> v \<le> ts_max"

text \<open>
  A method of a reader mutates the reader and either returns or raises. The outcome keeps
  the state the reader is left in, in both cases.
\<close>

datatype 's outcome = Returned 's | Raised exn 's

text \<open>Two calls in a row: the second runs only when the first returned.\<close>

fun then_do :: "'s outcome \<Rightarrow> ('s \<Rightarrow> 's outcome) \<Rightarrow> 's outcome" where
  "then_do (Returned s) f = f s"
| "then_do (Raised e s) f = Raised e s"

definition date_max :: date where
  "date_max = 2932896"

definition ns_per_minute :: int where
  "ns_per_minute = 60000000000"

definition ns_per_day :: int where
  "ns_per_day = 86400000000000"

record time_of_day =
  hour :: nat
  minute :: nat
  second :: nat
  microsecond :: nat

text \<open>\<^verbatim>\<open>dt.time(hour=int(hours), minute=int(minutes))\<close>, the parser of the time columns.\<close>

definition mk_time :: "nat \<Rightarrow> nat \<Rightarrow> time_of_day" where
  "mk_time h m = \<lparr>hour = h, minute = m, second = 0, microsecond = 0\<rparr>"

text \<open>Python orders naive \<^verbatim>\<open>datetime.time\<close> values field by field.\<close>

definition time_lt :: "time_of_day \<Rightarrow> time_of_day \<Rightarrow> bool" where
  "time_lt a b \<longleftrightarrow>
     hour a < hour b \<or> (hour a = hour b \<and>
       (minute a < minute b \<or> (minute a = minute b \<and>
         (second a < second b \<or> (second a = second b \<and> microsecond a < microsecond b)))))"

definition time_gt :: "time_of_day \<Rightarrow> time_of_day \<Rightarrow> bool" where
  "time_gt a b \<longleftrightarrow> time_lt b a"

section \<open>Spacelabs: reconstruction of the dates\<close>

text \<open>
  \<^verbatim>\<open>
  dates = [base_date]
  current_date = base_date
  for i in range(1, len(self.data)):
      previous_row = self.data.iloc[i - 1]
      current_row = self.data.iloc[i]
      if previous_row.time > current_row.time:
          current_date += dt.timedelta(days=1)
      dates.append(current_date)
  \<close>
  The loop body, for the rows from index 1 on: \<open>cur\<close> is \<^verbatim>\<open>current_date\<close>,
  \<open>prev\<close> the time of the previous row. The result is what the loop appends.
\<close>

definition add_day :: "date \<Rightarrow> exn + date" where
  "add_day d = (if d + 1 > date_max then Inl OverflowError else Inr (d + 1))"

fun dates_loop :: "date \<Rightarrow> time_of_day \<Rightarrow> time_of_day list \<Rightarrow> exn + date list" where
  "dates_loop cur prev [] = Inr []"
| "dates_loop cur prev (t # ts) =
     (if time_gt prev t then
        (case add_day cur of
           Inl e \<Rightarrow> Inl e
         | Inr cur' \<Rightarrow>
             (case dates_loop cur' t ts of Inl e \<Rightarrow> Inl e | Inr ds \<Rightarrow> Inr (cur' # ds)))
      else
        (case dates_loop cur t ts of Inl e \<Rightarrow> Inl e | Inr ds \<Rightarrow> Inr (cur # ds)))"

text \<open>The list \<^verbatim>\<open>dates\<close> after the loop; with no row it is \<^verbatim>\<open>[base_date]\<close>.\<close>

definition adjusting_date :: "date \<Rightarrow> time_of_day list \<Rightarrow> exn + date list" where
  "adjusting_date base_date tms =
     (case tms of
        [] \<Rightarrow> Inr [base_date]
      | t # ts \<Rightarrow>
          (case dates_loop base_date t ts of Inl e \<Rightarrow> Inl e | Inr ds \<Rightarrow> Inr (base_date # ds)))"

text \<open>
  \<^verbatim>\<open>Timestamp.round('min')\<close> and \<^verbatim>\<open>Timedelta.round('min')\<close>: pandas rounds the
  nanosecond count to the nearest multiple of a minute, a tie going to the even multiple
  (quotient and remainder are the floored ones, as \<open>div\<close> and \<open>mod\<close> are). Within
  half a minute of the ends of the range the rounded count no longer fits in 64 bits; the
  statements about rounded durations below take the rounded count to be in range.
\<close>

definition round_min :: "int \<Rightarrow> int" where
  "round_min v =
     (let q = v div ns_per_minute; r = v mod ns_per_minute
      in if r > ns_per_minute div 2 \<or> (r = ns_per_minute div 2 \<and> q mod 2 = 1)
         then (q + 1) * ns_per_minute else q * ns_per_minute)"

text \<open>\<^verbatim>\<open>timestamp.date()\<close>, \<^verbatim>\<open>timestamp.time()\<close> and \<^verbatim>\<open>dt.datetime.combine\<close>.\<close>

definition date_of :: "instant \<Rightarrow> date" where
  "date_of t = t div ns_per_day"

definition time_of :: "instant \<Rightarrow> time_of_day" where
  "time_of t =
     (let n = nat (t mod ns_per_day)
      in \<lparr>hour = n div 3600000000000,
          minute = (n div 60000000000) mod 60,
          second = (n div 1000000000) mod 60,
          microsecond = (n div 1000) mod 1000000\<rparr>)"

definition combine :: "date \<Rightarrow> time_of_day \<Rightarrow> instant" where
  "combine d t =
     d * ns_per_day
     + int (((hour t * 60 + minute t) * 60 + second t) * 1000000000 + microsecond t * 1000)"

section \<open>Spacelabs: the reader\<close>

text \<open>
  One row of \<^verbatim>\<open>self.data\<close>. A missing number or error code (NaN) is \<open>None\<close>. After
  \<^verbatim>\<open>drop_EB\<close> the timestamps are the index of the frame and no longer a column; the
  field \<open>timestamp\<close> holds them in both cases and \<open>index_name_timestamp\<close> says which.
\<close>

record row =
  timestamp :: instant
  date :: date
  time :: time_of_day
  SYS :: "int option"
  DIA :: "int option"
  col_x :: "int option"
  col_y :: "int option"
  col_z :: "int option"
  error :: "string option"

text \<open>The values of an index or of a column made from one: integers or instants.\<close>

datatype labels = Positions "int list" | Instants "instant list"

record abp_frame =
  rows :: "row list"
  index_name_timestamp :: bool
  window_start :: "labels option"
  window_end :: "labels option"

datatype meta = Null | Text string | Number int | Mapping "(string \<times> meta) list"

record SpacelabsReader =
  subject :: string
  valid_measurements :: string
  data :: abp_frame
  metadata :: "(string \<times> meta) list"

text \<open>\<^verbatim>\<open>self.data.index\<close>: the range index \<open>0, 1, ...\<close> until \<^verbatim>\<open>drop_EB\<close>, the timestamps after.\<close>

definition index :: "abp_frame \<Rightarrow> labels" where
  "index d =
     (if index_name_timestamp d then Instants (map timestamp (rows d))
      else Positions (map int [0..<length (rows d)]))"

subsection \<open>Construction\<close>

record raw_row =
  raw_time :: time_of_day
  raw_SYS :: "int option"
  raw_DIA :: "int option"
  raw_x :: "int option"
  raw_y :: "int option"
  raw_error :: "string option"
  raw_z :: "int option"

definition mk_row :: "date \<Rightarrow> raw_row \<Rightarrow> row" where
  "mk_row d r =
     \<lparr>timestamp = combine d (raw_time r), date = d, time = raw_time r,
      SYS = raw_SYS r, DIA = raw_DIA r, col_x = raw_x r, col_y = raw_y r, col_z = raw_z r,
      error = raw_error r\<rparr>"

text \<open>The dictionary \<^verbatim>\<open>self.metadata\<close> built from the XML line.\<close>

definition init_metadata ::
  "string option \<Rightarrow> string option \<Rightarrow> string option \<Rightarrow> string option \<Rightarrow> string option \<Rightarrow> int
   \<Rightarrow> (string \<times> meta) list" where
  "init_metadata dob race physician nursetech status count =
     (let txt = (\<lambda>v. case v of None \<Rightarrow> Null | Some s \<Rightarrow> Text s)
      in [(''PATIENTINFO'', Mapping [(''DOB'', txt dob), (''RACE'', txt race)]),
          (''REPORTINFO'', Mapping [(''PHYSICIAN'', txt physician),
                                    (''NURSETECH'', txt nursetech),
                                    (''STATUS'', txt status),
                                    (''CALIPERSUMMARY'', Mapping [(''COUNT'', Number count)])])])"

text \<open>
  \<^verbatim>\<open>__init__\<close>, from the parsed header fields and rows. With no row, \<^verbatim>\<open>dates\<close> still
  holds the base date and the line that combines \<^verbatim>\<open>dates[0]\<close> with
  \<^verbatim>\<open>self.data.time[0]\<close> raises \<^verbatim>\<open>AttributeError\<close>.
\<close>

definition SpacelabsReader_init ::
  "string \<Rightarrow> date \<Rightarrow> string \<Rightarrow> raw_row list \<Rightarrow> (string \<times> meta) list \<Rightarrow> exn + SpacelabsReader" where
  "SpacelabsReader_init subj base_date valid raws md =
     (case adjusting_date base_date (map raw_time raws) of
        Inl e \<Rightarrow> Inl e
      | Inr dates \<Rightarrow>
          if raws = [] then Inl AttributeError
          else Inr \<lparr>subject = subj, valid_measurements = valid,
                    data = \<lparr>rows = map2 mk_row dates raws, index_name_timestamp = False,
                            window_start = None, window_end = None\<rparr>,
                    metadata = md\<rparr>)"

subsection \<open>deidentify\<close>

text \<open>
  \<^verbatim>\<open>
  for key in self.metadata:
      self.metadata[key] = None
  \<close>
\<close>

fun clear_keys :: "string list \<Rightarrow> (string \<times> meta) list \<Rightarrow> (string \<times> meta) list" where
  "clear_keys [] md = md"
| "clear_keys (key # keys) md = clear_keys keys (AList.update key Null md)"

text \<open>\<^verbatim>\<open>if subject_id:\<close> is false for \<^verbatim>\<open>None\<close> and for the empty string.\<close>

definition deidentify :: "string option \<Rightarrow> SpacelabsReader \<Rightarrow> SpacelabsReader" where
  "deidentify subject_id r =
     r\<lparr>subject := (case subject_id of
                     None \<Rightarrow> ''xxxxxx''
                   | Some s \<Rightarrow> if s \<noteq> [] then s else ''xxxxxx''),
       metadata := clear_keys (map fst (metadata r)) (metadata r)\<rparr>"

text \<open>
  What a consumer that checks key presence sees: whether a path of keys leads through
  nested dictionaries (\<^verbatim>\<open>k1 in md and k2 in md[k1] ...\<close>).
\<close>

fun has_path :: "string list \<Rightarrow> meta \<Rightarrow> bool" where
  "has_path [] m = True"
| "has_path (k # ks) (Mapping kvs) =
     (case map_of kvs k of None \<Rightarrow> False | Some v \<Rightarrow> has_path ks v)"
| "has_path (k # ks) m = False"

subsection \<open>timeshift\<close>

datatype shift = Random int | Timestamp instant | Timedelta int | Other

text \<open>
  The argument \<^verbatim>\<open>shift\<close>: the string \<^verbatim>\<open>'random'\<close> (with the duration that
  \<^verbatim>\<open>pd.Timedelta(random.uniform(...))\<close> draws), a \<^verbatim>\<open>pd.Timestamp\<close>, a
  \<^verbatim>\<open>pd.Timedelta\<close>, or any other value.
\<close>

definition map_timestamps :: "(instant \<Rightarrow> instant) \<Rightarrow> SpacelabsReader \<Rightarrow> SpacelabsReader" where
  "map_timestamps f r =
     r\<lparr>data := (data r)\<lparr>rows := map (\<lambda>w. w\<lparr>timestamp := f (timestamp w)\<rparr>) (rows (data r))\<rparr>\<rparr>"

text \<open>
  The block under \<^verbatim>\<open>isinstance(shift, pd.Timestamp)\<close>. On an empty frame
  \<^verbatim>\<open>self.data.index[0]\<close> raises \<^verbatim>\<open>IndexError\<close> and \<^verbatim>\<open>self.data.timestamp[0]\<close>
  raises \<^verbatim>\<open>KeyError\<close>. The differences to the first entry and their sums with the
  rounded target are computed for the whole column before it is assigned; when one of
  them leaves the range the arithmetic raises \<^verbatim>\<open>OverflowError\<close> and the frame is
  unchanged.
\<close>

definition shift_to_timestamp :: "instant \<Rightarrow> SpacelabsReader \<Rightarrow> exn + SpacelabsReader" where
  "shift_to_timestamp a r =
     (case rows (data r) of
        [] \<Rightarrow> Inl (if index_name_timestamp (data r) then IndexError else KeyError)
      | w0 # _ \<Rightarrow>
          if list_all (\<lambda>w. in_range (timestamp w - timestamp w0) \<and>
                            in_range (round_min a + (timestamp w - timestamp w0))) (rows (data r))
          then Inr (map_timestamps (\<lambda>t. round_min a + (t - timestamp w0)) r)
          else Inl OverflowError)"




subsection \<open>drop\_EB\<close>

text \<open>Selection of the entries of a column by a boolean mask.\<close>

definition select :: "bool list \<Rightarrow> 'a list \<Rightarrow> 'a list" where
  "select keep xs = map snd (filter fst (zip keep xs))"

fun select_labels :: "bool list \<Rightarrow> labels \<Rightarrow> labels" where
  "select_labels keep (Positions xs) = Positions (select keep xs)"
| "select_labels keep (Instants ts) = Instants (select keep ts)"

text \<open>
  \<^verbatim>\<open>
  self.data = self.data[self.data.error != 'EB']
  self.data.set_index('timestamp', inplace=True)
  \<close>
  \<^verbatim>\<open>set_index\<close> does not verify that the keys are unique. It raises \<^verbatim>\<open>KeyError\<close>
  when there is no column \<^verbatim>\<open>timestamp\<close>, that is when the frame has been re-keyed
  before.
\<close>

definition drop_EB :: "SpacelabsReader \<Rightarrow> SpacelabsReader outcome" where
  "drop_EB r =
     (let d = data r;
          keep = map (\<lambda>w. error w \<noteq> Some ''EB'') (rows d);
          d' = d\<lparr>rows := select keep (rows d),
                 window_start := map_option (select_labels keep) (window_start d),
                 window_end := map_option (select_labels keep) (window_end d)\<rparr>
      in if index_name_timestamp d then Raised KeyError (r\<lparr>data := d'\<rparr>)
         else Returned (r\<lparr>data := d'\<lparr>index_name_timestamp := True\<rparr>\<rparr>))"

subsection \<open>set\_window\<close>

text \<open>
  The window duration is a \<^verbatim>\<open>pd.Timedelta\<close> (nanoseconds) or a
  \<^verbatim>\<open>datetime.timedelta\<close> (microseconds); \<^verbatim>\<open>window_duration // 2\<close> is the floored
  half in the unit of the type.
\<close>

datatype duration = PdTimedelta int | PyTimedelta int

fun duration_ns :: "duration \<Rightarrow> int" where
  "duration_ns (PdTimedelta n) = n"
| "duration_ns (PyTimedelta m) = m * 1000"

fun floordiv2 :: "duration \<Rightarrow> duration" where
  "floordiv2 (PdTimedelta n) = PdTimedelta (n div 2)"
| "floordiv2 (PyTimedelta m) = PyTimedelta (m div 2)"



text \<open>
  \<^verbatim>\<open>index + duration\<close> and \<^verbatim>\<open>index - duration\<close>. pandas first reads the duration
  as nanoseconds in 64 bits, which raises \<^verbatim>\<open>OverflowError\<close> for a
  \<^verbatim>\<open>datetime.timedelta\<close> too long for that. It raises \<^verbatim>\<open>TypeError\<close> for an integer
  index. It shifts a datetime index, and raises \<^verbatim>\<open>OverflowError\<close> when a shifted
  timestamp leaves the range.
\<close>

definition as_nanoseconds :: "duration \<Rightarrow> exn + int" where
  "as_nanoseconds d = (if in_range (duration_ns d) then Inr (duration_ns d) else Inl OverflowError)"

fun shift_labels :: "labels \<Rightarrow> int \<Rightarrow> exn + labels" where
  "shift_labels (Positions xs) n = Inl TypeError"
| "shift_labels (Instants ts) n =
     (if list_all (\<lambda>t. in_range (t + n)) ts then Inr (Instants (map (\<lambda>t. t + n) ts))
      else Inl OverflowError)"

definition index_add :: "labels \<Rightarrow> duration \<Rightarrow> exn + labels" where
  "index_add ix d = (case as_nanoseconds d of Inl e \<Rightarrow> Inl e | Inr n \<Rightarrow> shift_labels ix n)"

definition index_sub :: "labels \<Rightarrow> duration \<Rightarrow> exn + labels" where
  "index_sub ix d = (case as_nanoseconds d of Inl e \<Rightarrow> Inl e | Inr n \<Rightarrow> shift_labels ix (- n))"

definition set_window_start :: "labels \<Rightarrow> SpacelabsReader \<Rightarrow> SpacelabsReader" where
  "set_window_start c r = r\<lparr>data := (data r)\<lparr>window_start := Some c\<rparr>\<rparr>"

definition set_window_end :: "labels \<Rightarrow> SpacelabsReader \<Rightarrow> SpacelabsReader" where
  "set_window_end c r = r\<lparr>data := (data r)\<lparr>window_end := Some c\<rparr>\<rparr>"

text \<open>
  The chain of \<^verbatim>\<open>if\<close> and \<^verbatim>\<open>elif\<close> has no \<^verbatim>\<open>else\<close>. Each branch assigns
  \<^verbatim>\<open>window_start\<close> first and \<^verbatim>\<open>window_end\<close> second; a statement that raises leaves
  the earlier assignment in place.
\<close>

definition set_window :: "duration \<Rightarrow> string \<Rightarrow> SpacelabsReader \<Rightarrow> SpacelabsReader outcome" where
  "set_window window_duration window_type r =
     (if window_type = ''bffill'' then
        (case index_sub (index (data r)) (floordiv2 window_duration) of
           Inl e \<Rightarrow> Raised e r
         | Inr ws \<Rightarrow>
             let r1 = set_window_start ws r
             in (case index_add (index (data r1)) (floordiv2 window_duration) of
                   Inl e \<Rightarrow> Raised e r1
                 | Inr we \<Rightarrow> Returned (set_window_end we r1)))
      else if window_type = ''bfill'' then
        (case index_sub (index (data r)) window_duration of
           Inl e \<Rightarrow> Raised e r
         | Inr ws \<Rightarrow>
             let r1 = set_window_start ws r
             in Returned (set_window_end (index (data r1)) r1))
      else if window_type = ''ffill'' then
        (let r1 = set_window_start (index (data r)) r
         in (case index_add (index (data r1)) window_duration of
               Inl e \<Rightarrow> Raised e r1
             | Inr we \<Rightarrow> Returned (set_window_end we r1)))
      else Returned r)"

section \<open>Empatica: the reader\<close>

text \<open>
  A signal attribute of a reader is a frame (or series) indexed by time: the list of its
  rows, each an instant with the values of the row. An attribute is \<open>None\<close> when its file
  was missing or empty. \<open>joined\<close> is the attribute \<^verbatim>\<open>data\<close>, the joined frame: a row
  maps the name of every column of the frame to its cell, and a cell is \<open>None\<close> when the
  value is missing (NaN). \<^verbatim>\<open>sample_freqs\<close> plays no part in the methods below and is
  left out.
\<close>

type_synonym 'r dataframe = "(instant \<times> 'r) list"

type_synonym 'v table = "(string \<rightharpoonup> 'v option) dataframe"

record 'v EmpaticaReader =
  start_times :: "(string \<times> instant) list"
  ACC :: "('v \<times> 'v \<times> 'v) dataframe option"
  BVP :: "'v dataframe option"
  EDA :: "'v dataframe option"
  HR :: "'v dataframe option"
  TEMP :: "'v dataframe option"
  IBI :: "'v dataframe option"
  tags :: "instant list option"
  joined :: "'v table option"

definition frame_index :: "'r dataframe \<Rightarrow> instant list" where
  "frame_index df = map fst df"

definition index_of :: "'r dataframe option \<Rightarrow> instant list" where
  "index_of sig = (case sig of None \<Rightarrow> [] | Some df \<Rightarrow> frame_index df)"

subsection \<open>\_read\_signal\<close>

text \<open>
  \<^verbatim>\<open>_read_signal\<close> ends with \<^verbatim>\<open>return dataframe.squeeze()\<close>. A frame of one column
  becomes a series with the same index, and a frame of three columns stays a frame. But a
  frame of exactly one row loses its time index: one column gives the bare value, and the
  three columns of \<^verbatim>\<open>ACC\<close> give the series of the three values keyed by the names
  \<^verbatim>\<open>X\<close>, \<^verbatim>\<open>Y\<close>, \<^verbatim>\<open>Z\<close>.
\<close>

datatype 'r signal = Frame "'r dataframe" | OneRow 'r

definition squeeze :: "'r dataframe \<Rightarrow> 'r signal" where
  "squeeze df = (case df of [(t, v)] \<Rightarrow> OneRow v | _ \<Rightarrow> Frame df)"

subsection \<open>\_get\_joined\_dataframe\<close>

text \<open>
  \<^verbatim>\<open>pd.Series(dataframe.index)\<close> is taken of every signal that is not \<^verbatim>\<open>None\<close>, in
  the order \<^verbatim>\<open>ACC\<close>, \<^verbatim>\<open>BVP\<close>, \<^verbatim>\<open>EDA\<close>, \<^verbatim>\<open>HR\<close>, \<^verbatim>\<open>TEMP\<close>. A bare value has
  no attribute \<^verbatim>\<open>index\<close>: \<^verbatim>\<open>AttributeError\<close>.
\<close>

fun series_of :: "'v signal option \<Rightarrow> exn + 'v dataframe option" where
  "series_of None = Inr None"
| "series_of (Some (Frame df)) = Inr (Some df)"
| "series_of (Some (OneRow v)) = Inl AttributeError"

text \<open>
  \<^verbatim>\<open>joined_dataframe.loc[labels, column] = series\<close>. A column the frame does not have
  yet is added, missing in every row. Then, in the rows whose key is among the labels,
  the cell of the column becomes the value the series has at that key (missing when the
  series has none).
\<close>

definition loc_assign :: "instant list \<Rightarrow> string \<Rightarrow> 'v dataframe \<Rightarrow> 'v table \<Rightarrow> 'v table" where
  "loc_assign lbls column series df =
     map (\<lambda>(t, cells).
            (t, cells(column \<mapsto>
                  (if t \<in> set lbls then map_of series t
                   else (case cells column of None \<Rightarrow> None | Some old \<Rightarrow> old))))) df"

text \<open>\<^verbatim>\<open>self.ACC['X']\<close>, \<^verbatim>\<open>self.ACC['Y']\<close> and \<^verbatim>\<open>self.ACC['Z']\<close>.\<close>

definition acc_X :: "('v \<times> 'v \<times> 'v) dataframe \<Rightarrow> 'v dataframe" where
  "acc_X df = map (\<lambda>(t, vx, vy, vz). (t, vx)) df"

definition acc_Y :: "('v \<times> 'v \<times> 'v) dataframe \<Rightarrow> 'v dataframe" where
  "acc_Y df = map (\<lambda>(t, vx, vy, vz). (t, vy)) df"

definition acc_Z :: "('v \<times> 'v \<times> 'v) dataframe \<Rightarrow> 'v dataframe" where
  "acc_Z df = map (\<lambda>(t, vx, vy, vz). (t, vz)) df"

definition assign_signal :: "string \<Rightarrow> 'v dataframe option \<Rightarrow> 'v table \<Rightarrow> 'v table" where
  "assign_signal column sig df =
     (case sig of None \<Rightarrow> df | Some s \<Rightarrow> loc_assign (frame_index s) column s df)"

definition assign_ACC :: "('v \<times> 'v \<times> 'v) dataframe option \<Rightarrow> 'v table \<Rightarrow> 'v table" where
  "assign_ACC sig df =
     (case sig of
        None \<Rightarrow> df
      | Some a \<Rightarrow>
          loc_assign (frame_index a) ''ACC_Z'' (acc_Z a)
            (loc_assign (frame_index a) ''ACC_Y'' (acc_Y a)
              (loc_assign (frame_index a) ''ACC_X'' (acc_X a) df)))"

text \<open>
  The join of signals that are indexed by time. The index is the concatenation of the
  signals' indexes without its duplicates, sorted; the frame starts with no column and
  every signal present is assigned in turn.
\<close>

definition join_frames ::
  "('v \<times> 'v \<times> 'v) dataframe option \<Rightarrow> 'v dataframe option \<Rightarrow> 'v dataframe option \<Rightarrow>
   'v dataframe option \<Rightarrow> 'v dataframe option \<Rightarrow> 'v table" where
  "join_frames acc bvp eda hr temp =
     (let joined_idx =
            sort (remdups (index_of acc @ index_of bvp @ index_of eda @ index_of hr @ index_of temp));
          joined_dataframe = map (\<lambda>t. (t, Map.empty)) joined_idx
      in assign_signal ''TEMP'' temp
           (assign_signal ''HR'' hr
             (assign_signal ''EDA'' eda
               (assign_signal ''BVP'' bvp
                 (assign_ACC acc joined_dataframe)))))"

text \<open>
  What \<^verbatim>\<open>_get_joined_dataframe\<close> returns: \<open>None\<close>, a frame keyed by time, or, when
  \<^verbatim>\<open>ACC\<close> is the series of one row, a frame whose keys are the names \<^verbatim>\<open>X\<close>,
  \<^verbatim>\<open>Y\<close>, \<^verbatim>\<open>Z\<close> and whose columns \<^verbatim>\<open>ACC_X\<close>, \<^verbatim>\<open>ACC_Y\<close>, \<^verbatim>\<open>ACC_Z\<close> hold the
  three values of that row in all three rows.
\<close>

datatype 'v joined_frame = TimeKeyed "'v table" | NameKeyed 'v 'v 'v

text \<open>
  With no signal the method prints a message and returns \<open>None\<close>. Otherwise the indexes
  are collected, which fails at a bare value. When \<^verbatim>\<open>ACC\<close> is the series of one row
  its index is the three names: sorting them together with instants raises
  \<^verbatim>\<open>TypeError\<close>, and with no instant among the keys the frame is keyed by the names.
\<close>

definition get_joined_dataframe ::
  "('v \<times> 'v \<times> 'v) signal option \<Rightarrow> 'v signal option \<Rightarrow> 'v signal option \<Rightarrow>
   'v signal option \<Rightarrow> 'v signal option \<Rightarrow> exn + 'v joined_frame option" where
  "get_joined_dataframe acc bvp eda hr temp =
     (if acc = None \<and> bvp = None \<and> eda = None \<and> hr = None \<and> temp = None then Inr None
      else
        case series_of bvp of Inl e \<Rightarrow> Inl e | Inr b \<Rightarrow>
        case series_of eda of Inl e \<Rightarrow> Inl e | Inr ed \<Rightarrow>
        case series_of hr of Inl e \<Rightarrow> Inl e | Inr h \<Rightarrow>
        case series_of temp of Inl e \<Rightarrow> Inl e | Inr tp \<Rightarrow>
          (case acc of
             None \<Rightarrow> Inr (Some (TimeKeyed (join_frames None b ed h tp)))
           | Some (Frame a) \<Rightarrow> Inr (Some (TimeKeyed (join_frames (Some a) b ed h tp)))
           | Some (OneRow (vx, vy, vz)) \<Rightarrow>
               if index_of b @ index_of ed @ index_of h @ index_of tp = []
               then Inr (Some (NameKeyed vx vy vz))
               else Inl TypeError))"

subsection \<open>Construction\<close>

text \<open>
  \<^verbatim>\<open>__init__\<close>, from the start times and the rows read from each file (\<open>None\<close> for a
  file that is missing or empty). The five signals are squeezed, the attributes are set
  and \<^verbatim>\<open>self.data\<close> is the joined frame. The inter-beat intervals and the tags are not
  squeezed to a bare value. When the join raises, no reader is constructed. The result is
  a reader whose signals are indexed by time or, when \<^verbatim>\<open>ACC\<close> is the series of one row
  and the join is keyed by names, a reader outside the record above, of which none of
  the methods is modelled.
\<close>

datatype 'v built = Reader "'v EmpaticaReader" | ReaderByName 'v 'v 'v

definition EmpaticaReader_init ::
  "(string \<times> instant) list \<Rightarrow> ('v \<times> 'v \<times> 'v) dataframe option \<Rightarrow> 'v dataframe option \<Rightarrow>
   'v dataframe option \<Rightarrow> 'v dataframe option \<Rightarrow> 'v dataframe option \<Rightarrow> 'v dataframe option \<Rightarrow>
   instant list option \<Rightarrow> exn + 'v built" where
  "EmpaticaReader_init st acc bvp eda hr temp ibi tgs =
     (case get_joined_dataframe (map_option squeeze acc) (map_option squeeze bvp)
             (map_option squeeze eda) (map_option squeeze hr) (map_option squeeze temp) of
        Inl e \<Rightarrow> Inl e
      | Inr None \<Rightarrow>
          Inr (Reader \<lparr>start_times = st, ACC = acc, BVP = bvp, EDA = eda, HR = hr, TEMP = temp,
                       IBI = ibi, tags = tgs, joined = None\<rparr>)
      | Inr (Some (TimeKeyed j)) \<Rightarrow>
          Inr (Reader \<lparr>start_times = st, ACC = acc, BVP = bvp, EDA = eda, HR = hr, TEMP = temp,
                       IBI = ibi, tags = tgs, joined = Some j\<rparr>)
      | Inr (Some (NameKeyed vx vy vz)) \<Rightarrow> Inr (ReaderByName vx vy vz))"

subsection \<open>timeshift\<close>

text \<open>
  \<^verbatim>\<open>self.start_times[signal_name] += shift\<close>, key by key. The sum of a timestamp and a
  duration raises \<^verbatim>\<open>OutOfBoundsDatetime\<close> when it leaves the range; the entries before
  that one have been replaced by then.
\<close>

fun add_to_start_times ::
  "int \<Rightarrow> (string \<times> instant) list \<Rightarrow> exn option \<times> (string \<times> instant) list" where
  "add_to_start_times d [] = (None, [])"
| "add_to_start_times d ((signal_name, start_time) # rest) =
     (if in_range (start_time + d) then
        (case add_to_start_times d rest of
           (e, rest') \<Rightarrow> (e, (signal_name, start_time + d) # rest'))
      else (Some OutOfBoundsDatetime, (signal_name, start_time) # rest))"

definition shift_start_times :: "int \<Rightarrow> 'v EmpaticaReader \<Rightarrow> 'v EmpaticaReader outcome" where
  "shift_start_times d r =
     (case add_to_start_times d (start_times r) of
        (None, st) \<Rightarrow> Returned (r\<lparr>start_times := st\<rparr>)
      | (Some e, st) \<Rightarrow> Raised e (r\<lparr>start_times := st\<rparr>))"

text \<open>
  \<^verbatim>\<open>self.tags += shift\<close> and \<^verbatim>\<open>dataframe.index += shift\<close>: the sum is computed for
  the whole series or index and raises \<^verbatim>\<open>OverflowError\<close> when one entry leaves the
  range; nothing is assigned then.
\<close>

definition shift_tags :: "int \<Rightarrow> 'v EmpaticaReader \<Rightarrow> 'v EmpaticaReader outcome" where
  "shift_tags d r =
     (case tags r of
        None \<Rightarrow> Returned r
      | Some ts \<Rightarrow>
          if list_all (\<lambda>t. in_range (t + d)) ts
          then Returned (r\<lparr>tags := Some (map (\<lambda>t. t + d) ts)\<rparr>)
          else Raised OverflowError r)"

definition shift_index :: "int \<Rightarrow> 'r dataframe \<Rightarrow> exn + 'r dataframe" where
  "shift_index d df =
     (if list_all (\<lambda>t. in_range (t + d)) (frame_index df) then Inr (map (\<lambda>(t, v). (t + d, v)) df)
      else Inl OverflowError)"

text \<open>
  \<^verbatim>\<open>min(self.start_times.values())\<close> raises \<^verbatim>\<open>ValueError\<close> on an empty dictionary.
  The new dictionary replaces the old one after all its entries are computed; a
  difference or a sum that leaves the range raises \<^verbatim>\<open>OutOfBoundsDatetime\<close>.
\<close>

definition anchor_start_times :: "instant \<Rightarrow> 'v EmpaticaReader \<Rightarrow> 'v EmpaticaReader outcome" where
  "anchor_start_times a r =
     (if start_times r = [] then Raised ValueError r
      else
        let min_start_time = min_list (map snd (start_times r))
        in if list_all (\<lambda>start_time. in_range (start_time - min_start_time) \<and>
                                     in_range (a + (start_time - min_start_time)))
                (map snd (start_times r))
           then Returned (r\<lparr>start_times :=
                    map (\<lambda>(signal_name, start_time). (signal_name, a + (start_time - min_start_time)))
                      (start_times r)\<rparr>)
           else Raised OutOfBoundsDatetime r)"

text \<open>
  \<^verbatim>\<open>self.tags = shift + (self.tags - self.tags.min())\<close>, and
  \<^verbatim>\<open>dataframe.index = shift + (dataframe.index - dataframe.index.min())\<close>; the minimum
  is taken over the tags, or over the frame's own index.
\<close>

definition anchor_tags :: "instant \<Rightarrow> instant list \<Rightarrow> exn + instant list" where
  "anchor_tags a ts =
     (if ts = [] then Inr []
      else
        let m = min_list ts
        in if list_all (\<lambda>t. in_range (t - m) \<and> in_range (a + (t - m))) ts
           then Inr (map (\<lambda>t. a + (t - m)) ts)
           else Inl OverflowError)"

definition anchor_all_tags :: "instant \<Rightarrow> 'v EmpaticaReader \<Rightarrow> 'v EmpaticaReader outcome" where
  "anchor_all_tags a r =
     (case tags r of
        None \<Rightarrow> Returned r
      | Some ts \<Rightarrow>
          (case anchor_tags a ts of
             Inl e \<Rightarrow> Raised e r
           | Inr ts' \<Rightarrow> Returned (r\<lparr>tags := Some ts'\<rparr>)))"

definition anchor_index :: "instant \<Rightarrow> 'r dataframe \<Rightarrow> exn + 'r dataframe" where
  "anchor_index a df =
     (if df = [] then Inr []
      else
        let m = min_list (frame_index df)
        in if list_all (\<lambda>t. in_range (t - m) \<and> in_range (a + (t - m))) (frame_index df)
           then Inr (map (\<lambda>(t, v). (a + (t - m), v)) df)
           else Inl OverflowError)"

text \<open>
  One pass of the loop \<^verbatim>\<open>for dataframe in dataframes\<close>, for each attribute the list
  \<^verbatim>\<open>variables\<close> names: \<^verbatim>\<open>ACC\<close>, \<^verbatim>\<open>BVP\<close>, \<^verbatim>\<open>EDA\<close>, \<^verbatim>\<open>HR\<close>, \<^verbatim>\<open>TEMP\<close> and
  \<^verbatim>\<open>data\<close>. An attribute that is \<^verbatim>\<open>None\<close> is not in \<^verbatim>\<open>dataframes\<close>. The index of
  the frame is replaced; when the arithmetic raises, this frame and the later ones keep
  theirs.
\<close>

definition update_ACC ::
  "(('v \<times> 'v \<times> 'v) dataframe \<Rightarrow> exn + ('v \<times> 'v \<times> 'v) dataframe) \<Rightarrow> 'v EmpaticaReader
   \<Rightarrow> 'v EmpaticaReader outcome" where
  "update_ACC f r =
     (case ACC r of
        None \<Rightarrow> Returned r
      | Some df \<Rightarrow> (case f df of Inl e \<Rightarrow> Raised e r | Inr df' \<Rightarrow> Returned (r\<lparr>ACC := Some df'\<rparr>)))"

definition update_BVP ::
  "('v dataframe \<Rightarrow> exn + 'v dataframe) \<Rightarrow> 'v EmpaticaReader \<Rightarrow> 'v EmpaticaReader outcome" where
  "update_BVP f r =
     (case BVP r of
        None \<Rightarrow> Returned r
      | Some df \<Rightarrow> (case f df of Inl e \<Rightarrow> Raised e r | Inr df' \<Rightarrow> Returned (r\<lparr>BVP := Some df'\<rparr>)))"

definition update_EDA ::
  "('v dataframe \<Rightarrow> exn + 'v dataframe) \<Rightarrow> 'v EmpaticaReader \<Rightarrow> 'v EmpaticaReader outcome" where
  "update_EDA f r =
     (case EDA r of
        None \<Rightarrow> Returned r
      | Some df \<Rightarrow> (case f df of Inl e \<Rightarrow> Raised e r | Inr df' \<Rightarrow> Returned (r\<lparr>EDA := Some df'\<rparr>)))"

definition update_HR ::
  "('v dataframe \<Rightarrow> exn + 'v dataframe) \<Rightarrow> 'v EmpaticaReader \<Rightarrow> 'v EmpaticaReader outcome" where
  "update_HR f r =
     (case HR r of
        None \<Rightarrow> Returned r
      | Some df \<Rightarrow> (case f df of Inl e \<Rightarrow> Raised e r | Inr df' \<Rightarrow> Returned (r\<lparr>HR := Some df'\<rparr>)))"

definition update_TEMP ::
  "('v dataframe \<Rightarrow> exn + 'v dataframe) \<Rightarrow> 'v EmpaticaReader \<Rightarrow> 'v EmpaticaReader outcome" where
  "update_TEMP f r =
     (case TEMP r of
        None \<Rightarrow> Returned r
      | Some df \<Rightarrow> (case f df of Inl e \<Rightarrow> Raised e r | Inr df' \<Rightarrow> Returned (r\<lparr>TEMP := Some df'\<rparr>)))"

definition update_joined ::
  "('v table \<Rightarrow> exn + 'v table) \<Rightarrow> 'v EmpaticaReader \<Rightarrow> 'v EmpaticaReader outcome" where
  "update_joined f r =
     (case joined r of
        None \<Rightarrow> Returned r
      | Some df \<Rightarrow> (case f df of Inl e \<Rightarrow> Raised e r | Inr df' \<Rightarrow> Returned (r\<lparr>joined := Some df'\<rparr>)))"

text \<open>
  The block under \<^verbatim>\<open>isinstance(shift, pd.Timedelta)\<close>: the start times, the tags, then
  the frames in the order of \<^verbatim>\<open>variables\<close>. A step that raises ends the call and leaves
  the earlier steps done. \<^verbatim>\<open>self.IBI\<close> is not among the frames.
\<close>

definition timeshift_timedelta :: "int \<Rightarrow> 'v EmpaticaReader \<Rightarrow> 'v EmpaticaReader outcome" where
  "timeshift_timedelta d r =
     foldl then_do (shift_start_times d r)
       [shift_tags d,
        update_ACC (shift_index d), update_BVP (shift_index d), update_EDA (shift_index d),
        update_HR (shift_index d), update_TEMP (shift_index d), update_joined (shift_index d)]"

text \<open>The block under \<^verbatim>\<open>isinstance(shift, pd.Timestamp)\<close>, in the same order.\<close>

definition timeshift_timestamp :: "instant \<Rightarrow> 'v EmpaticaReader \<Rightarrow> 'v EmpaticaReader outcome" where
  "timeshift_timestamp a r =
     foldl then_do (anchor_start_times a r)
       [anchor_all_tags a,
        update_ACC (anchor_index a), update_BVP (anchor_index a), update_EDA (anchor_index a),
        update_HR (anchor_index a), update_TEMP (anchor_index a), update_joined (anchor_index a)]"

text \<open>
  \<^verbatim>\<open>'random'\<close> calls \<^verbatim>\<open>self.timeshift(random_timedelta)\<close> with the duration drawn and
  does nothing more after it.
\<close>

fun EmpaticaReader_timeshift :: "shift \<Rightarrow> 'v EmpaticaReader \<Rightarrow> 'v EmpaticaReader outcome" where
  "EmpaticaReader_timeshift (Random u) r = timeshift_timedelta u r"
| "EmpaticaReader_timeshift (Timestamp a) r = timeshift_timestamp a r"
| "EmpaticaReader_timeshift (Timedelta d) r = timeshift_timedelta d r"
| "EmpaticaReader_timeshift Other r = Returned r"

subsection \<open>\_write\_ibi\<close>

text \<open>
  The first column that \<^verbatim>\<open>_write_ibi\<close> writes:
  \<^verbatim>\<open>write_df.index - self.start_times['IBI']\<close>, here in nanoseconds (the code divides by
  \<^verbatim>\<open>1e9\<close> in floating point afterwards). \<^verbatim>\<open>write\<close> calls it when \<^verbatim>\<open>self.IBI\<close> is
  not \<^verbatim>\<open>None\<close>; a missing start time raises \<^verbatim>\<open>KeyError\<close>, and
  \<^verbatim>\<open>self.IBI.copy()\<close> raises \<^verbatim>\<open>AttributeError\<close> on \<^verbatim>\<open>None\<close>.
\<close>

definition write_ibi_offsets :: "'v EmpaticaReader \<Rightarrow> exn + int list" where
  "write_ibi_offsets r =
     (case map_of (start_times r) ''IBI'' of
        None \<Rightarrow> Inl KeyError
      | Some start \<Rightarrow>
          (case IBI r of
             None \<Rightarrow> Inl AttributeError
           | Some df \<Rightarrow> Inr (map (\<lambda>t. t - start) (frame_index df))))"

subsection \<open>Reading a frame and an outcome\<close>

text \<open>
  \<^verbatim>\<open>joined_dataframe.loc[t, column]\<close>: the cell of a column in the row with key \<open>t\<close>,
  \<open>None\<close> when the value is missing. A key or a column that the frame does not have
  raises \<^verbatim>\<open>KeyError\<close>.
\<close>

definition cell :: "'v table \<Rightarrow> instant \<Rightarrow> string \<Rightarrow> exn + 'v option" where
  "cell df t column =
     (case map_of df t of
        None \<Rightarrow> Inl KeyError
      | Some cells \<Rightarrow> (case cells column of None \<Rightarrow> Inl KeyError | Some v \<Rightarrow> Inr v))"

text \<open>The state a call leaves the reader in.\<close>

fun outcome_state :: "'s outcome \<Rightarrow> 's" where
  "outcome_state (Returned s) = s"
| "outcome_state (Raised e s) = s"

text \<open>The instants a timeshift of the reader visits: all but those of the inter-beat intervals.\<close>

definition visited_instants :: "'v EmpaticaReader \<Rightarrow> instant list" where
  "visited_instants r =
     map snd (start_times r) @ (case tags r of None \<Rightarrow> [] | Some ts \<Rightarrow> ts)
     @ index_of (ACC r) @ index_of (BVP r) @ index_of (EDA r) @ index_of (HR r)
     @ index_of (TEMP r) @ index_of (joined r)"

section \<open>Example record sets\<close>

text \<open>Four rows around midnight, at 23:58, 23:59, 00:01 and 00:05, none with an error code.\<close>

definition raw_at :: "nat \<Rightarrow> nat \<Rightarrow> string option \<Rightarrow> raw_row" where
  "raw_at h m e =
     \<lparr>raw_time = mk_time h m, raw_SYS = Some 120, raw_DIA = Some 80, raw_x = Some 90,
      raw_y = Some 60, raw_error = e, raw_z = None\<rparr>"

definition midnight_raws :: "raw_row list" where
  "midnight_raws = [raw_at 23 58 None, raw_at 23 59 None, raw_at 0 1 None, raw_at 0 5 None]"

text \<open>
  A reader with three rows, as \<^verbatim>\<open>__init__\<close> leaves it: the first row carries the error
  code \<^verbatim>\<open>EB\<close>; the other two were measured within the same minute, the second of
  them with the error code \<^verbatim>\<open>AB\<close>.
\<close>

definition row_at :: "instant \<Rightarrow> string option \<Rightarrow> row" where
  "row_at t e =
     \<lparr>timestamp = t, date = date_of t, time = time_of t, SYS = Some 120, DIA = Some 80,
      col_x = Some 90, col_y = Some 60, col_z = None, error = e\<rparr>"

definition example_metadata :: "(string \<times> meta) list" where
  "example_metadata =
     init_metadata (Some ''01.01.1970'') (Some ''unknown'') (Some ''Dr A'') None (Some ''final'') 3"

definition reader_of :: "row list \<Rightarrow> SpacelabsReader" where
  "reader_of ws =
     \<lparr>subject = ''000001'', valid_measurements = ''3'',
      data = \<lparr>rows = ws, index_name_timestamp = False, window_start = None, window_end = None\<rparr>,
      metadata = example_metadata\<rparr>"

definition same_minute_reader :: SpacelabsReader where
  "same_minute_reader =
     reader_of [row_at 0 (Some ''EB''), row_at 60000000000 None, row_at 60000000000 (Some ''AB'')]"

text \<open>A reader with two rows a minute apart, re-keyed by timestamp.\<close>

definition keyed_reader :: SpacelabsReader where
  "keyed_reader =
     (reader_of [row_at 0 None, row_at 60000000000 None])
       \<lparr>data := \<lparr>rows = [row_at 0 None, row_at 60000000000 None], index_name_timestamp = True,
                 window_start = None, window_end = None\<rparr>\<rparr>"

text \<open>
  An Empatica session as \<^verbatim>\<open>__init__\<close> constructs it: the blood volume pulse starts at
  instant 0 and the heart rate 10 later (the device's heart rate file starts after the
  other signals); there are two inter-beat intervals and one tag.
\<close>

definition example_session :: "int EmpaticaReader" where
  "example_session =
     \<lparr>start_times = [(''BVP'', 0), (''HR'', 10), (''IBI'', 0)],
      ACC = None, BVP = Some [(0, 51), (5, 52), (10, 53)], EDA = None,
      HR = Some [(10, 70), (20, 71)], TEMP = None,
      IBI = Some [(3, 800), (11, 790)], tags = Some [7],
      joined = Some (join_frames None (Some [(0, 51), (5, 52), (10, 53)]) None
                       (Some [(10, 70), (20, 71)]) None)\<rparr>"

section \<open>Properties of the date reconstruction\<close>

lemma dates_loop_length:
  "dates_loop cur prev ts = Inr ds \<Longrightarrow> length ds = length ts"
  by (induction ts arbitrary: cur prev ds)
     (auto simp: add_day_def split: if_splits sum.splits)

lemma dates_loop_step:
  "dates_loop cur prev ts = Inr ds \<Longrightarrow> i < length ts \<Longrightarrow>
   ds ! i = (if time_lt (ts ! i) ((prev # ts) ! i) then (cur # ds) ! i + 1 else (cur # ds) ! i)"
proof (induction ts arbitrary: cur prev ds i)
  case Nil
  then show ?case by simp
next
  case (Cons t ts)
  show ?case
  proof (cases i)
    case 0
    with Cons.prems show ?thesis
      by (auto simp: add_day_def time_gt_def split: if_splits sum.splits)
  next
    case (Suc j)
    with Cons.prems have j: "j < length ts" by simp
    show ?thesis
    proof (cases "time_gt prev t")
      case True
      with Cons.prems obtain ds' where
        ds: "ds = (cur + 1) # ds'" and rec: "dates_loop (cur + 1) t ts = Inr ds'"
        by (auto simp: add_day_def split: if_splits sum.splits)
      from Cons.IH [OF rec j] show ?thesis using Suc ds by simp
    next
      case False
      with Cons.prems obtain ds' where
        ds: "ds = cur # ds'" and rec: "dates_loop cur t ts = Inr ds'"
        by (auto split: sum.splits)
      from Cons.IH [OF rec j] show ?thesis using Suc ds by simp
    qed
  qed
qed

lemma dates_loop_returns:
  "cur + int (length ts) \<le> date_max \<Longrightarrow> \<exists>ds. dates_loop cur prev ts = Inr ds"
proof (induction ts arbitrary: cur prev)
  case Nil
  then show ?case by simp
next
  case (Cons t ts)
  have a: "\<exists>ds. dates_loop cur t ts = Inr ds"
    using Cons.prems by (intro Cons.IH) simp
  have b: "\<exists>ds. dates_loop (cur + 1) t ts = Inr ds"
    using Cons.prems by (intro Cons.IH) simp
  from a b Cons.prems show ?case
    by (auto simp: add_day_def)
qed

lemma adjusting_date_length:
  "adjusting_date base tms = Inr dates \<Longrightarrow> tms \<noteq> [] \<Longrightarrow> length dates = length tms"
  by (auto simp: adjusting_date_def dest: dates_loop_length split: list.splits sum.splits)

lemma adjusting_date_first:
  "adjusting_date base tms = Inr dates \<Longrightarrow> dates ! 0 = base"
  by (auto simp: adjusting_date_def split: list.splits sum.splits)

lemma adjusting_date_step:
  assumes "adjusting_date base tms = Inr dates" and "0 < i" and "i < length tms"
  shows "dates ! i =
    (if time_lt (tms ! i) (tms ! (i - 1)) then dates ! (i - 1) + 1 else dates ! (i - 1))"
proof -
  from assms obtain t ts ds where
    tms: "tms = t # ts" and ds: "dates = base # ds" and rec: "dates_loop base t ts = Inr ds"
    by (cases tms) (auto simp: adjusting_date_def split: sum.splits)
  from assms tms obtain j where j: "i = Suc j" "j < length ts"
    by (cases i) auto
  from dates_loop_step [OF rec j(2)] show ?thesis
    using tms ds j by simp
qed

lemma adjusting_date_returns:
  "base + int (length tms) \<le> date_max \<Longrightarrow> \<exists>dates. adjusting_date base tms = Inr dates"
proof (cases tms)
  case Nil
  then show ?thesis by (simp add: adjusting_date_def)
next
  case (Cons t ts)
  assume "base + int (length tms) \<le> date_max"
  with Cons have "base + int (length ts) \<le> date_max" by simp
  from dates_loop_returns [OF this, of t] Cons show ?thesis
    by (auto simp: adjusting_date_def)
qed

lemma adjusting_date_rollover:
  "base < date_max \<Longrightarrow>
   adjusting_date base [mk_time 23 58, mk_time 23 59, mk_time 0 1, mk_time 0 5]
     = Inr [base, base, base + 1, base + 1]"
  by (simp add: adjusting_date_def add_day_def time_gt_def time_lt_def mk_time_def)

lemma init_dates:
  assumes "SpacelabsReader_init subj base valid raws md = Inr r"
  shows "\<exists>dates. adjusting_date base (map raw_time raws) = Inr dates \<and> raws \<noteq> []
           \<and> map date (rows (data r)) = dates"
proof -
  from assms obtain dates where
    a: "adjusting_date base (map raw_time raws) = Inr dates" and ne: "raws \<noteq> []"
    and r: "r = \<lparr>subject = subj, valid_measurements = valid,
                    data = \<lparr>rows = map2 mk_row dates raws, index_name_timestamp = False,
                            window_start = None, window_end = None\<rparr>,
                    metadata = md\<rparr>"
    by (auto simp: SpacelabsReader_init_def split: sum.splits if_splits)
  from a ne have len: "length dates = length raws"
    using adjusting_date_length [of base "map raw_time raws" dates] by simp
  have "map date (map2 mk_row dates raws) = dates"
    using len by (induction dates raws rule: list_induct2) (simp_all add: mk_row_def)
  with a ne r show ?thesis by simp
qed

text \<open>
  C4. The dates are made in one pass from the first row to the last: row 0 has the base
  date, and the date of every later row is the date of the row before, plus one day exactly
  when its time of day is strictly less than that of the row before. The construction
  returns whenever the dates stay representable, and the times 23:58, 23:59, 00:01, 00:05
  with base date \<open>D\<close> give the dates \<open>D, D, D + 1, D + 1\<close>.
\<close>

theorem date_reconstruction:
  "(SpacelabsReader_init subj base valid raws md = Inr r \<longrightarrow>
      length (rows (data r)) = length raws \<and>
      date (rows (data r) ! 0) = base \<and>
      (\<forall>i. 0 < i \<and> i < length raws \<longrightarrow>
         date (rows (data r) ! i) =
           (if time_lt (raw_time (raws ! i)) (raw_time (raws ! (i - 1)))
            then date (rows (data r) ! (i - 1)) + 1
            else date (rows (data r) ! (i - 1)))))
   \<and> (raws \<noteq> [] \<and> base + int (length raws) \<le> date_max \<longrightarrow>
        (\<exists>r'. SpacelabsReader_init subj base valid raws md = Inr r'))
   \<and> (base < date_max \<and>
        map raw_time raws = [mk_time 23 58, mk_time 23 59, mk_time 0 1, mk_time 0 5] \<longrightarrow>
        (\<exists>r'. SpacelabsReader_init subj base valid raws md = Inr r' \<and>
              map date (rows (data r')) = [base, base, base + 1, base + 1]))"
proof (intro conjI impI)
  assume init: "SpacelabsReader_init subj base valid raws md = Inr r"
  from init_dates [OF init] obtain dates where
    a: "adjusting_date base (map raw_time raws) = Inr dates" and ne: "raws \<noteq> []"
    and d: "map date (rows (data r)) = dates"
    by blast
  from a ne have len: "length dates = length raws"
    using adjusting_date_length [of base "map raw_time raws" dates] by simp
  from d have lr: "length (rows (data r)) = length dates"
    by (metis length_map)
  show "length (rows (data r)) = length raws"
    using lr len by simp
  have nth: "date (rows (data r) ! i) = dates ! i" if "i < length raws" for i
    using that d lr len by (metis nth_map)
  show "date (rows (data r) ! 0) = base"
    using nth [of 0] ne adjusting_date_first [OF a] by simp
  show "\<forall>i. 0 < i \<and> i < length raws \<longrightarrow>
         date (rows (data r) ! i) =
           (if time_lt (raw_time (raws ! i)) (raw_time (raws ! (i - 1)))
            then date (rows (data r) ! (i - 1)) + 1
            else date (rows (data r) ! (i - 1)))"
  proof (intro allI impI)
    fix i assume "0 < i \<and> i < length raws"
    then have i: "0 < i" "i < length raws" by simp_all
    then have "i < length (map raw_time raws)" by simp
    moreover from i have "map raw_time raws ! (i - 1) = raw_time (raws ! (i - 1))"
      by (intro nth_map) simp
    moreover from i have "map raw_time raws ! i = raw_time (raws ! i)"
      by (intro nth_map) simp
    ultimately have "dates ! i =
      (if time_lt (raw_time (raws ! i)) (raw_time (raws ! (i - 1)))
       then dates ! (i - 1) + 1 else dates ! (i - 1))"
      using adjusting_date_step [OF a, of i] i by simp
    with i show "date (rows (data r) ! i) =
           (if time_lt (raw_time (raws ! i)) (raw_time (raws ! (i - 1)))
            then date (rows (data r) ! (i - 1)) + 1
            else date (rows (data r) ! (i - 1)))"
      using nth [of i] nth [of "i - 1"] by simp
  qed
next
  assume h: "raws \<noteq> [] \<and> base + int (length raws) \<le> date_max"
  then obtain dates where "adjusting_date base (map raw_time raws) = Inr dates"
    using adjusting_date_returns [of base "map raw_time raws"] by auto
  with h show "\<exists>r'. SpacelabsReader_init subj base valid raws md = Inr r'"
    by (simp add: SpacelabsReader_init_def)
next
  assume h: "base < date_max \<and>
        map raw_time raws = [mk_time 23 58, mk_time 23 59, mk_time 0 1, mk_time 0 5]"
  then have a: "adjusting_date base (map raw_time raws) = Inr [base, base, base + 1, base + 1]"
    using adjusting_date_rollover by simp
  from h have ne: "raws \<noteq> []" by auto
  from a ne obtain r' where r': "SpacelabsReader_init subj base valid raws md = Inr r'"
    by (simp add: SpacelabsReader_init_def)
  from init_dates [OF r'] a have "map date (rows (data r')) = [base, base, base + 1, base + 1]"
    by simp
  with r' show "\<exists>r'. SpacelabsReader_init subj base valid raws md = Inr r' \<and>
              map date (rows (data r')) = [base, base, base + 1, base + 1]"
    by (intro exI [of _ r'] conjI)
qed

theorem date_reconstruction_witness:
  "midnight_raws \<noteq> [] \<and> 19000 + int (length midnight_raws) \<le> date_max \<and> 19000 < date_max \<and>
   (\<exists>r. SpacelabsReader_init ''subject'' 19000 ''4'' midnight_raws [] = Inr r \<and>
        length (rows (data r)) = 4 \<and>
        date (rows (data r) ! 0) = 19000 \<and>
        date (rows (data r) ! 2) = date (rows (data r) ! 1) + 1 \<and>
        map date (rows (data r)) = [19000, 19000, 19001, 19001])"
proof -
  have ne: "midnight_raws \<noteq> []"
    by (simp add: midnight_raws_def)
  have bound: "19000 + int (length midnight_raws) \<le> date_max" "19000 < date_max"
    by (simp_all add: midnight_raws_def date_max_def)
  have tms: "map raw_time midnight_raws = [mk_time 23 58, mk_time 23 59, mk_time 0 1, mk_time 0 5]"
    by (simp add: midnight_raws_def raw_at_def)
  have lt: "time_lt (raw_time (midnight_raws ! 2)) (raw_time (midnight_raws ! (2 - 1)))"
    by (simp add: midnight_raws_def raw_at_def mk_time_def time_lt_def)
  have "19000 < date_max \<and>
      map raw_time midnight_raws = [mk_time 23 58, mk_time 23 59, mk_time 0 1, mk_time 0 5]"
    using bound tms by simp
  with date_reconstruction [of "''subject''" 19000 "''4''" midnight_raws "[]", THEN conjunct2,
      THEN conjunct2]
  have "\<exists>r. SpacelabsReader_init ''subject'' 19000 ''4'' midnight_raws [] = Inr r \<and>
      map date (rows (data r)) = [19000, 19000, 19000 + 1, 19000 + 1]"
    by (rule mp)
  then obtain r where r: "SpacelabsReader_init ''subject'' 19000 ''4'' midnight_raws [] = Inr r"
    and dates: "map date (rows (data r)) = [19000, 19000, 19001, 19001]"
    by auto
  from date_reconstruction [of "''subject''" 19000 "''4''" midnight_raws "[]" r, THEN conjunct1,
      THEN mp, OF r]
  have len: "length (rows (data r)) = length midnight_raws"
    and first: "date (rows (data r) ! 0) = 19000"
    and step: "\<forall>i. 0 < i \<and> i < length midnight_raws \<longrightarrow>
         date (rows (data r) ! i) =
           (if time_lt (raw_time (midnight_raws ! i)) (raw_time (midnight_raws ! (i - 1)))
            then date (rows (data r) ! (i - 1)) + 1
            else date (rows (data r) ! (i - 1)))"
    by simp_all
  have "(2::nat) < length midnight_raws"
    by (simp add: midnight_raws_def)
  with step lt have "date (rows (data r) ! 2) = date (rows (data r) ! (2 - 1)) + 1"
    by (metis zero_less_numeral)
  then have two: "date (rows (data r) ! 2) = date (rows (data r) ! 1) + 1"
    by simp
  from len have "length (rows (data r)) = 4"
    by (simp add: midnight_raws_def)
  with ne bound r first two dates show ?thesis
    by - (intro conjI exI [of _ r]; assumption)
qed

section \<open>Properties of deidentify\<close>

lemma update_present:
  "distinct (map fst al) \<Longrightarrow> k \<in> fst ` set al \<Longrightarrow>
   AList.update k v al = map (\<lambda>p. if fst p = k then (k, v) else p) al"
proof (induction al)
  case Nil
  then show ?case by simp
next
  case (Cons p al)
  obtain k' v' where p: "p = (k', v')" by (cases p)
  show ?case
  proof (cases "k' = k")
    case True
    with Cons.prems p have "k \<notin> fst ` set al" by auto
    then have "map (\<lambda>p. if fst p = k then (k, v) else p) al = al"
      by (induction al) auto
    with True p show ?thesis by simp
  next
    case False
    with Cons p show ?thesis by auto
  qed
qed

lemma clear_keys_map:
  "distinct (map fst md) \<Longrightarrow> set ks \<subseteq> fst ` set md \<Longrightarrow>
   clear_keys ks md = map (\<lambda>p. if fst p \<in> set ks then (fst p, Null) else p) md"
proof (induction ks arbitrary: md)
  case Nil
  then show ?case by simp
next
  case (Cons k ks)
  let ?md = "map (\<lambda>p. if fst p = k then (k, Null) else p) md"
  from Cons.prems have "distinct (map fst md)" "k \<in> fst ` set md"
    by simp_all
  then have upd: "AList.update k Null md = ?md"
    by (rule update_present)
  have keys: "map fst ?md = map fst md"
    by (induction md) auto
  then have "fst ` set ?md = fst ` set md"
    by (metis set_map)
  then have sub: "set ks \<subseteq> fst ` set ?md"
    using Cons.prems by simp
  have dist: "distinct (map fst ?md)"
    unfolding keys using Cons.prems by blast
  have "clear_keys ks ?md
      = map (\<lambda>p. if fst p \<in> set ks then (fst p, Null) else p) ?md"
    using dist sub by (rule Cons.IH)
  also have "\<dots> = map (\<lambda>p. if fst p \<in> set (k # ks) then (fst p, Null) else p) md"
    by (induction md) auto
  finally show ?case
    using upd by simp
qed

lemma clear_all_keys:
  "distinct (map fst md) \<Longrightarrow> clear_keys (map fst md) md = map (\<lambda>p. (fst p, Null)) md"
  using clear_keys_map [of md "map fst md"] by (simp cong: map_cong)

lemma has_path_nested_null:
  "\<not> has_path (k # k' # ks) (Mapping (map (\<lambda>p. (fst p, Null)) md))"
proof -
  have "map_of (map (\<lambda>p. (fst p, Null)) md) k = None \<or>
        map_of (map (\<lambda>p. (fst p, Null)) md) k = Some Null"
    by (induction md) auto
  then show ?thesis by auto
qed

lemma has_path_top_null:
  "has_path [k] (Mapping (map (\<lambda>p. (fst p, Null)) md)) = has_path [k] (Mapping md)"
  by (induction md) (auto split: option.splits)

text \<open>
  C3, as the code has it. The subject becomes the given identifier, or the placeholder
  \<^verbatim>\<open>xxxxxx\<close> when none or an empty one is given. Every top-level key of the metadata
  is kept, in order, and its value becomes null, whether it was a leaf or a nested
  dictionary: the presence of a top-level key is unchanged and no key of a nested
  dictionary is left. The frame and the count of valid measurements are untouched.
\<close>

theorem deidentify_clears_top_level:
  assumes "distinct (map fst (metadata r))"
  shows "subject (deidentify subject_id r) =
           (case subject_id of None \<Rightarrow> ''xxxxxx'' | Some s \<Rightarrow> if s = [] then ''xxxxxx'' else s)
       \<and> metadata (deidentify subject_id r) = map (\<lambda>p. (fst p, Null)) (metadata r)
       \<and> map fst (metadata (deidentify subject_id r)) = map fst (metadata r)
       \<and> (\<forall>k. has_path [k] (Mapping (metadata (deidentify subject_id r)))
                = has_path [k] (Mapping (metadata r)))
       \<and> (\<forall>k k' ks. \<not> has_path (k # k' # ks) (Mapping (metadata (deidentify subject_id r))))
       \<and> data (deidentify subject_id r) = data r
       \<and> valid_measurements (deidentify subject_id r) = valid_measurements r"
proof -
  have md: "metadata (deidentify subject_id r) = map (\<lambda>p. (fst p, Null)) (metadata r)"
    using assms by (simp add: deidentify_def clear_all_keys)
  have keys: "map fst (map (\<lambda>p. (fst p, Null)) (metadata r)) = map fst (metadata r)"
    by (simp add: comp_def)
  have subj: "subject (deidentify subject_id r) =
           (case subject_id of None \<Rightarrow> ''xxxxxx'' | Some s \<Rightarrow> if s = [] then ''xxxxxx'' else s)"
    by (simp add: deidentify_def split: option.splits)
  have rest: "data (deidentify subject_id r) = data r"
    "valid_measurements (deidentify subject_id r) = valid_measurements r"
    by (simp_all add: deidentify_def)
  show ?thesis
    unfolding md keys using subj rest has_path_nested_null has_path_top_null
    by (intro conjI allI) (simp_all only: md keys refl)
qed

lemma example_metadata_distinct: "distinct (map fst example_metadata)"
  by (simp add: example_metadata_def init_metadata_def)

theorem deidentify_clears_top_level_witness:
  "distinct (map fst (metadata same_minute_reader)) \<and>
   subject (deidentify (Some ''S07'') same_minute_reader) = ''S07'' \<and>
   subject (deidentify None same_minute_reader) = ''xxxxxx'' \<and>
   metadata (deidentify None same_minute_reader) = [(''PATIENTINFO'', Null), (''REPORTINFO'', Null)]"
proof -
  have d: "distinct (map fst (metadata same_minute_reader))"
    by (simp add: same_minute_reader_def reader_of_def example_metadata_distinct)
  have md: "map (\<lambda>p. (fst p, Null)) (metadata same_minute_reader)
      = [(''PATIENTINFO'', Null), (''REPORTINFO'', Null)]"
    by (simp add: same_minute_reader_def reader_of_def example_metadata_def init_metadata_def)
  from deidentify_clears_top_level [OF d, of "Some ''S07''"]
       deidentify_clears_top_level [OF d, of None] d md
  show ?thesis by simp
qed

theorem deidentify_drops_nested_keys:
  "has_path [''PATIENTINFO'', ''DOB''] (Mapping (metadata same_minute_reader)) \<and>
   \<not> has_path [''PATIENTINFO'', ''DOB''] (Mapping (metadata (deidentify None same_minute_reader)))"
  by (simp add: same_minute_reader_def reader_of_def example_metadata_def init_metadata_def
      deidentify_def)

section \<open>Properties of drop\_EB and set\_window\<close>





lemma in_range_neg: "in_range (- n) = in_range n"
  by (auto simp: in_range_def ts_min_def ts_max_def)




lemma shift_labels_keyed:
  assumes "\<forall>w \<in> set ws. in_range (timestamp w + n)"
  shows "shift_labels (Instants (map timestamp ws)) n = Inr (Instants (map (\<lambda>w. timestamp w + n) ws))"
  using assms by (simp add: list_all_iff comp_def)





text \<open>
  When only the later end of a centered window leaves the range, \<^verbatim>\<open>bffill\<close> has
  assigned \<^verbatim>\<open>window_start\<close> before the addition raises.
\<close>

lemma set_window_bffill_overflow:
  assumes "index_name_timestamp (data r)"
    and "in_range (duration_ns (floordiv2 d))"
    and "\<forall>w \<in> set (rows (data r)). in_range (timestamp w - duration_ns (floordiv2 d))"
    and "\<exists>w \<in> set (rows (data r)). \<not> in_range (timestamp w + duration_ns (floordiv2 d))"
  shows "set_window d ''bffill'' r = Raised OverflowError (r\<lparr>data := (data r)
            \<lparr>window_start :=
               Some (Instants (map (\<lambda>w. timestamp w - duration_ns (floordiv2 d)) (rows (data r))))\<rparr>\<rparr>)"
proof -
  let ?h = "duration_ns (floordiv2 d)"
  have sub: "index_sub (Instants (map timestamp (rows (data r)))) (floordiv2 d)
      = Inr (Instants (map (\<lambda>w. timestamp w - ?h) (rows (data r))))"
    using assms(1-3) shift_labels_keyed [of "rows (data r)" "- ?h"]
    by (simp add: index_sub_def as_nanoseconds_def)
  have add: "index_add (Instants (map timestamp (rows (data r)))) (floordiv2 d) = Inl OverflowError"
    using assms(1,2,4)
    by (auto simp: index_add_def as_nanoseconds_def list_all_iff)
  show ?thesis
    using assms(1)
    by (simp add: set_window_def Let_def set_window_start_def index_def sub add)
qed




text \<open>
  C5, at a record set the code can receive. \<^verbatim>\<open>drop_EB\<close> removes the row flagged
  \<^verbatim>\<open>EB\<close> and returns; the two rows that are left share their timestamp, and both are
  kept as keys of the re-keyed frame. No error is raised.
\<close>

theorem drop_EB_keeps_shared_timestamps:
  "\<exists>r'. drop_EB same_minute_reader = Returned r' \<and>
        index (data r') = Instants [60000000000, 60000000000] \<and>
        map error (rows (data r')) = [None, Some ''AB''] \<and>
        \<not> distinct (map timestamp (rows (data r')))"
  by (simp add: drop_EB_def same_minute_reader_def reader_of_def row_at_def select_def index_def)

text \<open>
  C6, as the code has it. A window type other than \<^verbatim>\<open>bffill\<close>, \<^verbatim>\<open>bfill\<close> and
  \<^verbatim>\<open>ffill\<close> matches no branch: the call computes no window column, leaves the reader
  as it was and returns; nothing is raised.
\<close>

theorem unknown_window_type_returns:
  assumes "window_type \<noteq> ''bffill''" and "window_type \<noteq> ''bfill''" and "window_type \<noteq> ''ffill''"
  shows "set_window window_duration window_type r = Returned r"
  using assms by (simp add: set_window_def)

theorem unknown_window_type_returns_witness:
  "''trailing'' \<noteq> ''bffill'' \<and> ''trailing'' \<noteq> ''bfill'' \<and> ''trailing'' \<noteq> ''ffill'' \<and>
   set_window (PyTimedelta 5000000) ''trailing'' keyed_reader = Returned keyed_reader \<and>
   window_start (data keyed_reader) = None \<and> window_end (data keyed_reader) = None"
proof -
  have ne: "''trailing'' \<noteq> ''bffill''" "''trailing'' \<noteq> ''bfill''" "''trailing'' \<noteq> ''ffill''"
    by simp_all
  have "window_start (data keyed_reader) = None" "window_end (data keyed_reader) = None"
    by (simp_all add: keyed_reader_def)
  with ne unknown_window_type_returns [OF ne, of "PyTimedelta 5000000" keyed_reader]
  show ?thesis by simp
qed

theorem unknown_window_type_not_rejected:
  "set_window (PdTimedelta 600000000000) ''both'' same_minute_reader = Returned same_minute_reader"
  by (simp add: set_window_def)







section \<open>Properties of the joined frame\<close>

lemma loc_assign_keyed:
  "loc_assign lbls c s (map (\<lambda>t. (t, f t)) idx)
     = map (\<lambda>t. (t, (f t)(c \<mapsto> (if t \<in> set lbls then map_of s t
                                  else (case f t c of None \<Rightarrow> None | Some old \<Rightarrow> old))))) idx"
  by (simp add: loc_assign_def comp_def)

lemma assign_signal_keyed:
  "assign_signal c sig (map (\<lambda>t. (t, f t)) idx)
     = map (\<lambda>t. (t, case sig of
                       None \<Rightarrow> f t
                     | Some s \<Rightarrow>
                         (f t)(c \<mapsto> (if t \<in> set (frame_index s) then map_of s t
                                     else (case f t c of None \<Rightarrow> None | Some old \<Rightarrow> old))))) idx"
  by (cases sig) (simp_all add: assign_signal_def loc_assign_keyed)

lemma cell_keyed:
  "t \<in> set idx \<Longrightarrow>
   cell (map (\<lambda>t. (t, f t)) idx) t c = (case f t c of None \<Rightarrow> Inl KeyError | Some v \<Rightarrow> Inr v)"
  by (induction idx) (auto simp: cell_def)

lemma cell_no_key:
  assumes "t \<notin> set (frame_index df)"
  shows "cell df t c = Inl KeyError"
proof -
  from assms have "map_of df t = None"
    by (simp add: frame_index_def map_of_eq_None_iff)
  then show ?thesis
    by (simp add: cell_def)
qed

lemma map_of_outside: "t \<notin> set (frame_index s) \<Longrightarrow> map_of s t = None"
  by (simp add: frame_index_def map_of_eq_None_iff)

lemma map_of_sample: "distinct (frame_index s) \<Longrightarrow> (t, v) \<in> set s \<Longrightarrow> map_of s t = Some v"
  by (simp add: frame_index_def)

lemma guarded_lookup:
  "(if t \<in> set (frame_index s) then map_of s t else None) = map_of s t"
  by (simp add: map_of_outside)

lemma acc_index:
  "frame_index (acc_X a) = frame_index a" "frame_index (acc_Y a) = frame_index a"
  "frame_index (acc_Z a) = frame_index a"
  by (induction a) (auto simp: frame_index_def acc_X_def acc_Y_def acc_Z_def)

lemma guarded_lookup_acc:
  "(if t \<in> set (frame_index a) then map_of (acc_X a) t else None) = map_of (acc_X a) t"
  "(if t \<in> set (frame_index a) then map_of (acc_Y a) t else None) = map_of (acc_Y a) t"
  "(if t \<in> set (frame_index a) then map_of (acc_Z a) t else None) = map_of (acc_Z a) t"
  using guarded_lookup [of t "acc_X a"] guarded_lookup [of t "acc_Y a"]
    guarded_lookup [of t "acc_Z a"]
  by (simp_all only: acc_index)

lemma acc_outside:
  assumes "t \<notin> set (frame_index a)"
  shows "map_of (acc_X a) t = None" and "map_of (acc_Y a) t = None" and "map_of (acc_Z a) t = None"
  by (rule map_of_outside, simp add: acc_index assms)+

lemma acc_sample:
  assumes "distinct (frame_index a)" and "(t, vx, vy, vz) \<in> set a"
  shows "map_of (acc_X a) t = Some vx" and "map_of (acc_Y a) t = Some vy"
    and "map_of (acc_Z a) t = Some vz"
proof -
  have "(t, vx) \<in> set (acc_X a)" "(t, vy) \<in> set (acc_Y a)" "(t, vz) \<in> set (acc_Z a)"
    using assms(2) by (force simp: acc_X_def acc_Y_def acc_Z_def)+
  then show "map_of (acc_X a) t = Some vx" and "map_of (acc_Y a) t = Some vy"
    and "map_of (acc_Z a) t = Some vz"
    using assms(1) by (simp_all add: map_of_sample acc_index)
qed

text \<open>The rows of the join: every key with the cells the assignments leave in its row.\<close>

lemma join_frames_rows:
  "join_frames acc bvp eda hr temp =
     map (\<lambda>t. (t,
        let c0 = (case acc of
                    None \<Rightarrow> Map.empty
                  | Some a \<Rightarrow> [''ACC_X'' \<mapsto> map_of (acc_X a) t, ''ACC_Y'' \<mapsto> map_of (acc_Y a) t,
                               ''ACC_Z'' \<mapsto> map_of (acc_Z a) t]);
            c1 = (case bvp of None \<Rightarrow> c0 | Some s \<Rightarrow> c0(''BVP'' \<mapsto> map_of s t));
            c2 = (case eda of None \<Rightarrow> c1 | Some s \<Rightarrow> c1(''EDA'' \<mapsto> map_of s t));
            c3 = (case hr of None \<Rightarrow> c2 | Some s \<Rightarrow> c2(''HR'' \<mapsto> map_of s t))
        in (case temp of None \<Rightarrow> c3 | Some s \<Rightarrow> c3(''TEMP'' \<mapsto> map_of s t))))
       (sort (remdups (index_of acc @ index_of bvp @ index_of eda @ index_of hr @ index_of temp)))"
proof -
  have acc_step: "assign_ACC acc (map (\<lambda>t. (t, Map.empty)) idx)
      = map (\<lambda>t. (t, case acc of
                    None \<Rightarrow> Map.empty
                  | Some a \<Rightarrow> [''ACC_X'' \<mapsto> map_of (acc_X a) t, ''ACC_Y'' \<mapsto> map_of (acc_Y a) t,
                               ''ACC_Z'' \<mapsto> map_of (acc_Z a) t])) idx" for idx
    by (cases acc) (simp_all add: assign_ACC_def loc_assign_keyed acc_outside)
  have step: "assign_signal c sig (map (\<lambda>t. (t, f t)) idx)
      = map (\<lambda>t. (t, case sig of None \<Rightarrow> f t | Some s \<Rightarrow> (f t)(c \<mapsto> map_of s t))) idx"
    if "\<And>t. f t c = None" for c sig idx and f :: "instant \<Rightarrow> string \<rightharpoonup> 'a option"
    by (cases sig) (simp_all add: assign_signal_keyed that map_of_outside)
  show ?thesis
    unfolding join_frames_def Let_def acc_step
    by (subst step, simp split: option.splits)+ simp
qed

lemma join_frames_index:
  "frame_index (join_frames acc bvp eda hr temp)
     = sort (remdups (index_of acc @ index_of bvp @ index_of eda @ index_of hr @ index_of temp))"
  by (simp add: join_frames_rows frame_index_def comp_def)

lemma join_frames_cells:
  assumes "t \<in> set (frame_index (join_frames acc bvp eda hr temp))"
  shows "cell (join_frames acc bvp eda hr temp) t ''BVP''
           = (case bvp of None \<Rightarrow> Inl KeyError | Some s \<Rightarrow> Inr (map_of s t))"
    and "cell (join_frames acc bvp eda hr temp) t ''EDA''
           = (case eda of None \<Rightarrow> Inl KeyError | Some s \<Rightarrow> Inr (map_of s t))"
    and "cell (join_frames acc bvp eda hr temp) t ''HR''
           = (case hr of None \<Rightarrow> Inl KeyError | Some s \<Rightarrow> Inr (map_of s t))"
    and "cell (join_frames acc bvp eda hr temp) t ''TEMP''
           = (case temp of None \<Rightarrow> Inl KeyError | Some s \<Rightarrow> Inr (map_of s t))"
    and "cell (join_frames acc bvp eda hr temp) t ''ACC_X''
           = (case acc of None \<Rightarrow> Inl KeyError | Some a \<Rightarrow> Inr (map_of (acc_X a) t))"
    and "cell (join_frames acc bvp eda hr temp) t ''ACC_Y''
           = (case acc of None \<Rightarrow> Inl KeyError | Some a \<Rightarrow> Inr (map_of (acc_Y a) t))"
    and "cell (join_frames acc bvp eda hr temp) t ''ACC_Z''
           = (case acc of None \<Rightarrow> Inl KeyError | Some a \<Rightarrow> Inr (map_of (acc_Z a) t))"
proof -
  from assms
  have t: "t \<in> set (sort (remdups (index_of acc @ index_of bvp @ index_of eda @ index_of hr
      @ index_of temp)))"
    by (simp only: join_frames_index)
  note c = cell_keyed [OF t]
  show "cell (join_frames acc bvp eda hr temp) t ''BVP''
           = (case bvp of None \<Rightarrow> Inl KeyError | Some s \<Rightarrow> Inr (map_of s t))"
    unfolding join_frames_rows c by (simp add: Let_def split: option.splits)
  show "cell (join_frames acc bvp eda hr temp) t ''EDA''
           = (case eda of None \<Rightarrow> Inl KeyError | Some s \<Rightarrow> Inr (map_of s t))"
    unfolding join_frames_rows c by (simp add: Let_def split: option.splits)
  show "cell (join_frames acc bvp eda hr temp) t ''HR''
           = (case hr of None \<Rightarrow> Inl KeyError | Some s \<Rightarrow> Inr (map_of s t))"
    unfolding join_frames_rows c by (simp add: Let_def split: option.splits)
  show "cell (join_frames acc bvp eda hr temp) t ''TEMP''
           = (case temp of None \<Rightarrow> Inl KeyError | Some s \<Rightarrow> Inr (map_of s t))"
    unfolding join_frames_rows c by (simp add: Let_def split: option.splits)
  show "cell (join_frames acc bvp eda hr temp) t ''ACC_X''
           = (case acc of None \<Rightarrow> Inl KeyError | Some a \<Rightarrow> Inr (map_of (acc_X a) t))"
    unfolding join_frames_rows c by (simp add: Let_def split: option.splits)
  show "cell (join_frames acc bvp eda hr temp) t ''ACC_Y''
           = (case acc of None \<Rightarrow> Inl KeyError | Some a \<Rightarrow> Inr (map_of (acc_Y a) t))"
    unfolding join_frames_rows c by (simp add: Let_def split: option.splits)
  show "cell (join_frames acc bvp eda hr temp) t ''ACC_Z''
           = (case acc of None \<Rightarrow> Inl KeyError | Some a \<Rightarrow> Inr (map_of (acc_Z a) t))"
    unfolding join_frames_rows c by (simp add: Let_def split: option.splits)
qed

lemma join_frames_column:
  assumes "distinct (frame_index s)"
    and "cell j t c = Inr (map_of s t)"
  shows "(\<forall>v. (t, v) \<in> set s \<longrightarrow> cell j t c = Inr (Some v)) \<and>
         (t \<notin> fst ` set s \<longrightarrow> cell j t c = Inr None)"
  using assms map_of_sample [OF assms(1)] map_of_outside [of t s]
  by (auto simp: frame_index_def)

text \<open>
  The join of signals that are indexed by time does what is asked of it. Its keys are
  sorted and distinct, and they are the instants at which some signal has a sample. At
  every key, the column of a signal holds the signal's own value where the signal has a
  sample at that instant and a missing value where it has none; nothing else is filled
  in. A signal that is absent has no column. The index of each signal has no instant
  twice, as \<^verbatim>\<open>pd.date_range\<close> makes it.
\<close>

lemma join_frames_fidelity:
  fixes acc :: "('v \<times> 'v \<times> 'v) dataframe option" and bvp eda hr temp :: "'v dataframe option"
  defines "j \<equiv> join_frames acc bvp eda hr temp"
  assumes "\<forall>a. acc = Some a \<longrightarrow> distinct (frame_index a)"
    and "\<forall>s. bvp = Some s \<longrightarrow> distinct (frame_index s)"
    and "\<forall>s. eda = Some s \<longrightarrow> distinct (frame_index s)"
    and "\<forall>s. hr = Some s \<longrightarrow> distinct (frame_index s)"
    and "\<forall>s. temp = Some s \<longrightarrow> distinct (frame_index s)"
  shows "sorted (frame_index j)" and "distinct (frame_index j)"
    and "set (frame_index j) =
           (case acc of None \<Rightarrow> {} | Some a \<Rightarrow> fst ` set a) \<union>
           (case bvp of None \<Rightarrow> {} | Some s \<Rightarrow> fst ` set s) \<union>
           (case eda of None \<Rightarrow> {} | Some s \<Rightarrow> fst ` set s) \<union>
           (case hr of None \<Rightarrow> {} | Some s \<Rightarrow> fst ` set s) \<union>
           (case temp of None \<Rightarrow> {} | Some s \<Rightarrow> fst ` set s)"
    and "\<forall>t \<in> set (frame_index j). \<forall>s. bvp = Some s \<longrightarrow>
           (\<forall>v. (t, v) \<in> set s \<longrightarrow> cell j t ''BVP'' = Inr (Some v)) \<and>
           (t \<notin> fst ` set s \<longrightarrow> cell j t ''BVP'' = Inr None)"
    and "\<forall>t \<in> set (frame_index j). \<forall>s. eda = Some s \<longrightarrow>
           (\<forall>v. (t, v) \<in> set s \<longrightarrow> cell j t ''EDA'' = Inr (Some v)) \<and>
           (t \<notin> fst ` set s \<longrightarrow> cell j t ''EDA'' = Inr None)"
    and "\<forall>t \<in> set (frame_index j). \<forall>s. hr = Some s \<longrightarrow>
           (\<forall>v. (t, v) \<in> set s \<longrightarrow> cell j t ''HR'' = Inr (Some v)) \<and>
           (t \<notin> fst ` set s \<longrightarrow> cell j t ''HR'' = Inr None)"
    and "\<forall>t \<in> set (frame_index j). \<forall>s. temp = Some s \<longrightarrow>
           (\<forall>v. (t, v) \<in> set s \<longrightarrow> cell j t ''TEMP'' = Inr (Some v)) \<and>
           (t \<notin> fst ` set s \<longrightarrow> cell j t ''TEMP'' = Inr None)"
    and "\<forall>t \<in> set (frame_index j). \<forall>a. acc = Some a \<longrightarrow>
           (\<forall>vx vy vz. (t, vx, vy, vz) \<in> set a \<longrightarrow>
              cell j t ''ACC_X'' = Inr (Some vx) \<and> cell j t ''ACC_Y'' = Inr (Some vy) \<and>
              cell j t ''ACC_Z'' = Inr (Some vz)) \<and>
           (t \<notin> fst ` set a \<longrightarrow>
              cell j t ''ACC_X'' = Inr None \<and> cell j t ''ACC_Y'' = Inr None \<and>
              cell j t ''ACC_Z'' = Inr None)"
    and "bvp = None \<longrightarrow> (\<forall>t. cell j t ''BVP'' = Inl KeyError)"
proof -
  note idx = join_frames_index [of acc bvp eda hr temp, folded j_def]
  show "sorted (frame_index j)" and "distinct (frame_index j)"
    by (simp_all add: idx)
  show "set (frame_index j) =
           (case acc of None \<Rightarrow> {} | Some a \<Rightarrow> fst ` set a) \<union>
           (case bvp of None \<Rightarrow> {} | Some s \<Rightarrow> fst ` set s) \<union>
           (case eda of None \<Rightarrow> {} | Some s \<Rightarrow> fst ` set s) \<union>
           (case hr of None \<Rightarrow> {} | Some s \<Rightarrow> fst ` set s) \<union>
           (case temp of None \<Rightarrow> {} | Some s \<Rightarrow> fst ` set s)"
    unfolding idx by (simp add: index_of_def frame_index_def Un_assoc split: option.splits)
  note cells = join_frames_cells [of _ acc bvp eda hr temp, folded j_def]
  show "\<forall>t \<in> set (frame_index j). \<forall>s. bvp = Some s \<longrightarrow>
           (\<forall>v. (t, v) \<in> set s \<longrightarrow> cell j t ''BVP'' = Inr (Some v)) \<and>
           (t \<notin> fst ` set s \<longrightarrow> cell j t ''BVP'' = Inr None)"
    using assms(3) cells(1) by (intro ballI allI impI join_frames_column) simp_all
  show "\<forall>t \<in> set (frame_index j). \<forall>s. eda = Some s \<longrightarrow>
           (\<forall>v. (t, v) \<in> set s \<longrightarrow> cell j t ''EDA'' = Inr (Some v)) \<and>
           (t \<notin> fst ` set s \<longrightarrow> cell j t ''EDA'' = Inr None)"
    using assms(4) cells(2) by (intro ballI allI impI join_frames_column) simp_all
  show "\<forall>t \<in> set (frame_index j). \<forall>s. hr = Some s \<longrightarrow>
           (\<forall>v. (t, v) \<in> set s \<longrightarrow> cell j t ''HR'' = Inr (Some v)) \<and>
           (t \<notin> fst ` set s \<longrightarrow> cell j t ''HR'' = Inr None)"
    using assms(5) cells(3) by (intro ballI allI impI join_frames_column) simp_all
  show "\<forall>t \<in> set (frame_index j). \<forall>s. temp = Some s \<longrightarrow>
           (\<forall>v. (t, v) \<in> set s \<longrightarrow> cell j t ''TEMP'' = Inr (Some v)) \<and>
           (t \<notin> fst ` set s \<longrightarrow> cell j t ''TEMP'' = Inr None)"
    using assms(6) cells(4) by (intro ballI allI impI join_frames_column) simp_all
  show "\<forall>t \<in> set (frame_index j). \<forall>a. acc = Some a \<longrightarrow>
           (\<forall>vx vy vz. (t, vx, vy, vz) \<in> set a \<longrightarrow>
              cell j t ''ACC_X'' = Inr (Some vx) \<and> cell j t ''ACC_Y'' = Inr (Some vy) \<and>
              cell j t ''ACC_Z'' = Inr (Some vz)) \<and>
           (t \<notin> fst ` set a \<longrightarrow>
              cell j t ''ACC_X'' = Inr None \<and> cell j t ''ACC_Y'' = Inr None \<and>
              cell j t ''ACC_Z'' = Inr None)"
  proof (intro ballI allI impI conjI)
    fix t a vx vy vz
    assume t: "t \<in> set (frame_index j)" and a: "acc = Some a" and m: "(t, vx, vy, vz) \<in> set a"
    from assms(2) a have d: "distinct (frame_index a)" by simp
    from acc_sample [OF d m] cells(5-7) [OF t] a
    show "cell j t ''ACC_X'' = Inr (Some vx)" and "cell j t ''ACC_Y'' = Inr (Some vy)"
      and "cell j t ''ACC_Z'' = Inr (Some vz)"
      by simp_all
  next
    fix t a
    assume t: "t \<in> set (frame_index j)" and a: "acc = Some a" and m: "t \<notin> fst ` set a"
    then have "t \<notin> set (frame_index a)"
      by (simp add: frame_index_def)
    from acc_outside [OF this] cells(5-7) [OF t] a
    show "cell j t ''ACC_X'' = Inr None" and "cell j t ''ACC_Y'' = Inr None"
      and "cell j t ''ACC_Z'' = Inr None"
      by simp_all
  qed
  show "bvp = None \<longrightarrow> (\<forall>t. cell j t ''BVP'' = Inl KeyError)"
  proof (intro impI allI)
    fix t assume n: "bvp = None"
    show "cell j t ''BVP'' = Inl KeyError"
    proof (cases "t \<in> set (frame_index j)")
      case True
      from cells(1) [OF True] n show ?thesis by simp
    next
      case False
      then show ?thesis by (rule cell_no_key)
    qed
  qed
qed

text \<open>
  \<^verbatim>\<open>_get_joined_dataframe\<close> on signals that are frames: \<open>None\<close> exactly when there is
  no signal, and otherwise the join above.
\<close>

lemma get_joined_of_frames:
  "get_joined_dataframe (map_option Frame acc) (map_option Frame bvp) (map_option Frame eda)
       (map_option Frame hr) (map_option Frame temp)
     = Inr (if acc = None \<and> bvp = None \<and> eda = None \<and> hr = None \<and> temp = None then None
            else Some (TimeKeyed (join_frames acc bvp eda hr temp)))"
proof -
  have s: "series_of (map_option Frame x) = Inr x" for x :: "'a dataframe option"
    by (cases x) simp_all
  show ?thesis
    by (cases acc) (simp_all add: get_joined_dataframe_def s)
qed

lemma squeeze_rows:
  "length df \<noteq> 1 \<Longrightarrow> squeeze df = Frame df" "squeeze [(t, v)] = OneRow v"
  by (cases df rule: list.exhaust [case_product list.exhaust])
     (auto simp: squeeze_def split: list.splits prod.splits)

lemma example_session_signals:
  "ACC example_session = None" "BVP example_session = Some [(0, 51), (5, 52), (10, 53)]"
  "EDA example_session = None" "HR example_session = Some [(10, 70), (20, 71)]"
  "TEMP example_session = None" "IBI example_session = Some [(3, 800), (11, 790)]"
  "tags example_session = Some [7]"
  "start_times example_session = [(''BVP'', 0), (''HR'', 10), (''IBI'', 0)]"
  by (simp_all add: example_session_def)

lemma example_session_joined_index:
  "map_option frame_index (joined example_session) = Some [0, 5, 10, 20]"
  by (simp add: example_session_def join_frames_index) (simp add: index_of_def frame_index_def)

text \<open>The example is what \<^verbatim>\<open>__init__\<close> constructs from the rows of its files.\<close>

lemma example_session_built:
  "EmpaticaReader_init [(''BVP'', 0), (''HR'', 10), (''IBI'', 0)]
       None (Some [(0, 51), (5, 52), (10, 53)]) None (Some [(10, 70), (20, 71)]) None
       (Some [(3, 800), (11, 790)]) (Some [7])
     = Inr (Reader example_session)"
  by (simp add: EmpaticaReader_init_def squeeze_def get_joined_dataframe_def example_session_def)

text \<open>
  C9, at a session the code can receive: the file of the heart rate holds one sample.
  \<^verbatim>\<open>squeeze\<close> makes the one-row frame a bare value, which has no index, so
  \<^verbatim>\<open>_get_joined_dataframe\<close> raises \<^verbatim>\<open>AttributeError\<close> and \<^verbatim>\<open>__init__\<close> constructs no
  reader: there is no joined table, although two signals contribute. With a second
  sample of the heart rate the same session is constructed and joined.
\<close>

theorem one_sample_signal_breaks_join:
  "squeeze [(10, 70)] = (OneRow 70 :: int signal) \<and>
   get_joined_dataframe None (Some (Frame [(0, 51), (5, 52), (10, 53)])) None (Some (OneRow 70)) None
     = (Inl AttributeError :: exn + int joined_frame option) \<and>
   EmpaticaReader_init [(''BVP'', 0), (''HR'', 10), (''IBI'', 0)]
       None (Some [(0, 51), (5, 52), (10, 53)]) None (Some [(10, 70)]) None
       (Some [(3, 800), (11, 790)]) (Some [7])
     = (Inl AttributeError :: exn + int built) \<and>
   EmpaticaReader_init [(''BVP'', 0), (''HR'', 10), (''IBI'', 0)]
       None (Some [(0, 51), (5, 52), (10, 53)]) None (Some [(10, 70), (20, 71)]) None
       (Some [(3, 800), (11, 790)]) (Some [7])
     = Inr (Reader example_session)"
  using example_session_built
  by (simp add: EmpaticaReader_init_def squeeze_def get_joined_dataframe_def)

section \<open>Properties of timeshift\<close>

lemma add_to_start_times_in_range:
  "list_all (\<lambda>t. in_range (t + d)) (map snd st) \<Longrightarrow>
     add_to_start_times d st = (None, map (\<lambda>(n, t). (n, t + d)) st)"
  by (induction st) auto

lemma shift_index_in_range:
  "list_all (\<lambda>t. in_range (t + d)) (frame_index df) \<Longrightarrow>
     shift_index d df = Inr (map (\<lambda>(t, v). (t + d, v)) df)"
  by (simp add: shift_index_def)






lemma shift_start_times_in_range:
  assumes "list_all (\<lambda>t. in_range (t + d)) (map snd (start_times r))"
  shows "shift_start_times d r = Returned (r\<lparr>start_times := map (\<lambda>(n, t). (n, t + d)) (start_times r)\<rparr>)"
  by (simp add: shift_start_times_def add_to_start_times_in_range [OF assms])

lemma shift_tags_in_range:
  assumes "list_all (\<lambda>t. in_range (t + d)) (case tags r of None \<Rightarrow> [] | Some ts \<Rightarrow> ts)"
  shows "shift_tags d r = Returned (r\<lparr>tags := map_option (map (\<lambda>t. t + d)) (tags r)\<rparr>)"
  using assms by (cases "tags r") (simp_all add: shift_tags_def)

lemma update_ACC_in_range:
  assumes "list_all (\<lambda>t. in_range (t + d)) (index_of (ACC r))"
  shows "update_ACC (shift_index d) r
           = Returned (r\<lparr>ACC := map_option (map (\<lambda>(t, v). (t + d, v))) (ACC r)\<rparr>)"
  using assms by (cases "ACC r") (simp_all add: update_ACC_def index_of_def shift_index_in_range)

lemma update_BVP_in_range:
  assumes "list_all (\<lambda>t. in_range (t + d)) (index_of (BVP r))"
  shows "update_BVP (shift_index d) r
           = Returned (r\<lparr>BVP := map_option (map (\<lambda>(t, v). (t + d, v))) (BVP r)\<rparr>)"
  using assms by (cases "BVP r") (simp_all add: update_BVP_def index_of_def shift_index_in_range)

lemma update_EDA_in_range:
  assumes "list_all (\<lambda>t. in_range (t + d)) (index_of (EDA r))"
  shows "update_EDA (shift_index d) r
           = Returned (r\<lparr>EDA := map_option (map (\<lambda>(t, v). (t + d, v))) (EDA r)\<rparr>)"
  using assms by (cases "EDA r") (simp_all add: update_EDA_def index_of_def shift_index_in_range)

lemma update_HR_in_range:
  assumes "list_all (\<lambda>t. in_range (t + d)) (index_of (HR r))"
  shows "update_HR (shift_index d) r
           = Returned (r\<lparr>HR := map_option (map (\<lambda>(t, v). (t + d, v))) (HR r)\<rparr>)"
  using assms by (cases "HR r") (simp_all add: update_HR_def index_of_def shift_index_in_range)

lemma update_TEMP_in_range:
  assumes "list_all (\<lambda>t. in_range (t + d)) (index_of (TEMP r))"
  shows "update_TEMP (shift_index d) r
           = Returned (r\<lparr>TEMP := map_option (map (\<lambda>(t, v). (t + d, v))) (TEMP r)\<rparr>)"
  using assms by (cases "TEMP r") (simp_all add: update_TEMP_def index_of_def shift_index_in_range)

lemma update_joined_in_range:
  assumes "list_all (\<lambda>t. in_range (t + d)) (index_of (joined r))"
  shows "update_joined (shift_index d) r
           = Returned (r\<lparr>joined := map_option (map (\<lambda>(t, v). (t + d, v))) (joined r)\<rparr>)"
  using assms by (cases "joined r") (simp_all add: update_joined_def index_of_def shift_index_in_range)

text \<open>
  A relative shift of the Empatica reader whose sums all stay in the range returns, and
  it moves the start times, the tags, the five signals and the joined frame by the
  duration. The inter-beat intervals are left as they were.
\<close>

lemma timeshift_timedelta_returns:
  assumes "\<forall>t \<in> set (visited_instants e). in_range (t + d)"
  shows "timeshift_timedelta d e
     = Returned (e\<lparr>start_times := map (\<lambda>(n, t). (n, t + d)) (start_times e),
                   tags := map_option (map (\<lambda>t. t + d)) (tags e),
                   ACC := map_option (map (\<lambda>(t, v). (t + d, v))) (ACC e),
                   BVP := map_option (map (\<lambda>(t, v). (t + d, v))) (BVP e),
                   EDA := map_option (map (\<lambda>(t, v). (t + d, v))) (EDA e),
                   HR := map_option (map (\<lambda>(t, v). (t + d, v))) (HR e),
                   TEMP := map_option (map (\<lambda>(t, v). (t + d, v))) (TEMP e),
                   joined := map_option (map (\<lambda>(t, v). (t + d, v))) (joined e)\<rparr>)"
proof -
  from assms have all: "list_all (\<lambda>t. in_range (t + d)) (visited_instants e)"
    by (simp add: list_all_iff)
  then have st: "list_all (\<lambda>t. in_range (t + d)) (map snd (start_times e))"
    and tg: "list_all (\<lambda>t. in_range (t + d)) (case tags e of None \<Rightarrow> [] | Some ts \<Rightarrow> ts)"
    and acc: "list_all (\<lambda>t. in_range (t + d)) (index_of (ACC e))"
    and bvp: "list_all (\<lambda>t. in_range (t + d)) (index_of (BVP e))"
    and eda: "list_all (\<lambda>t. in_range (t + d)) (index_of (EDA e))"
    and hr: "list_all (\<lambda>t. in_range (t + d)) (index_of (HR e))"
    and temp: "list_all (\<lambda>t. in_range (t + d)) (index_of (TEMP e))"
    and jn: "list_all (\<lambda>t. in_range (t + d)) (index_of (joined e))"
    by (simp_all add: visited_instants_def)
  define e1 where "e1 = e\<lparr>start_times := map (\<lambda>(n, t). (n, t + d)) (start_times e)\<rparr>"
  define e2 where "e2 = e1\<lparr>tags := map_option (map (\<lambda>t. t + d)) (tags e)\<rparr>"
  define e3 where "e3 = e2\<lparr>ACC := map_option (map (\<lambda>(t, v). (t + d, v))) (ACC e)\<rparr>"
  define e4 where "e4 = e3\<lparr>BVP := map_option (map (\<lambda>(t, v). (t + d, v))) (BVP e)\<rparr>"
  define e5 where "e5 = e4\<lparr>EDA := map_option (map (\<lambda>(t, v). (t + d, v))) (EDA e)\<rparr>"
  define e6 where "e6 = e5\<lparr>HR := map_option (map (\<lambda>(t, v). (t + d, v))) (HR e)\<rparr>"
  define e7 where "e7 = e6\<lparr>TEMP := map_option (map (\<lambda>(t, v). (t + d, v))) (TEMP e)\<rparr>"
  define e8 where "e8 = e7\<lparr>joined := map_option (map (\<lambda>(t, v). (t + d, v))) (joined e)\<rparr>"
  have s1: "shift_start_times d e = Returned e1"
    unfolding e1_def by (rule shift_start_times_in_range [OF st])
  have s2: "shift_tags d e1 = Returned e2"
    using shift_tags_in_range [of d e1] tg by (simp add: e1_def e2_def)
  have s3: "update_ACC (shift_index d) e2 = Returned e3"
    using update_ACC_in_range [of d e2] acc by (simp add: e1_def e2_def e3_def)
  have s4: "update_BVP (shift_index d) e3 = Returned e4"
    using update_BVP_in_range [of d e3] bvp by (simp add: e1_def e2_def e3_def e4_def)
  have s5: "update_EDA (shift_index d) e4 = Returned e5"
    using update_EDA_in_range [of d e4] eda by (simp add: e1_def e2_def e3_def e4_def e5_def)
  have s6: "update_HR (shift_index d) e5 = Returned e6"
    using update_HR_in_range [of d e5] hr by (simp add: e1_def e2_def e3_def e4_def e5_def e6_def)
  have s7: "update_TEMP (shift_index d) e6 = Returned e7"
    using update_TEMP_in_range [of d e6] temp
    by (simp add: e1_def e2_def e3_def e4_def e5_def e6_def e7_def)
  have s8: "update_joined (shift_index d) e7 = Returned e8"
    using update_joined_in_range [of d e7] jn
    by (simp add: e1_def e2_def e3_def e4_def e5_def e6_def e7_def e8_def)
  have "timeshift_timedelta d e = Returned e8"
    by (simp add: timeshift_timedelta_def s1 s2 s3 s4 s5 s6 s7 s8)
  then show ?thesis
    by (simp add: e1_def e2_def e3_def e4_def e5_def e6_def e7_def e8_def)
qed



lemma example_session_joined_rows:
  "\<exists>c0 c5 c10 c20. joined example_session = Some [(0, c0), (5, c5), (10, c10), (20, c20)]"
  by (simp add: example_session_def join_frames_rows index_of_def frame_index_def)

lemma example_session_visited:
  "visited_instants example_session = [0, 10, 0, 7, 0, 5, 10, 10, 20, 0, 5, 10, 20]"
proof -
  have "index_of (joined example_session) = [0, 5, 10, 20]"
    using example_session_joined_index
    by (cases "joined example_session") (simp_all add: index_of_def)
  then show ?thesis
    by (simp add: visited_instants_def example_session_signals index_of_def frame_index_def)
qed

text \<open>
  The anchored shift of the Spacelabs reader is one translation of the whole frame: every
  timestamp moves by the same amount, so the differences between rows are kept. The
  target instant is rounded to the minute first.
\<close>

lemma spacelabs_anchor_is_translation:
  assumes "shift_to_timestamp a r = Inr r'"
  shows "\<exists>w0 ws. rows (data r) = w0 # ws \<and>
           map timestamp (rows (data r'))
             = map (\<lambda>w. timestamp w + (round_min a - timestamp w0)) (rows (data r))"
  using assms
  by (auto simp: shift_to_timestamp_def map_timestamps_def comp_def algebra_simps
      split: list.splits if_splits)

text \<open>
  C1, at a session the code can receive. The blood volume pulse has samples at 0, 5, 10
  and the heart rate at 10, 20; the tag is at 7. Anchored at 1000, the start times are
  moved by one common minimum (1000 and 1010), and so is the joined frame, but each
  signal and the tags are moved by their own minimum: the heart rate samples land on
  1000, 1010 and the tag on 1000. The heart rate started 10 after the blood volume pulse
  and now starts with it; its index no longer agrees with its start time nor with the
  joined frame. The inter-beat intervals are not moved.
\<close>

theorem anchored_shift_uses_separate_minima:
  "map_option frame_index (BVP example_session) = Some [0, 5, 10] \<and>
   map_option frame_index (HR example_session) = Some [10, 20] \<and>
   EmpaticaReader_timeshift (Timestamp 1000) example_session
     = Returned (outcome_state (EmpaticaReader_timeshift (Timestamp 1000) example_session)) \<and>
   start_times (outcome_state (EmpaticaReader_timeshift (Timestamp 1000) example_session))
     = [(''BVP'', 1000), (''HR'', 1010), (''IBI'', 1000)] \<and>
   map_option frame_index (BVP (outcome_state (EmpaticaReader_timeshift (Timestamp 1000) example_session)))
     = Some [1000, 1005, 1010] \<and>
   map_option frame_index (HR (outcome_state (EmpaticaReader_timeshift (Timestamp 1000) example_session)))
     = Some [1000, 1010] \<and>
   map_option frame_index (joined (outcome_state (EmpaticaReader_timeshift (Timestamp 1000) example_session)))
     = Some [1000, 1005, 1010, 1020] \<and>
   tags (outcome_state (EmpaticaReader_timeshift (Timestamp 1000) example_session)) = Some [1000] \<and>
   map_option frame_index (IBI (outcome_state (EmpaticaReader_timeshift (Timestamp 1000) example_session)))
     = Some [3, 11]"
proof -
  note sig = example_session_signals
  from example_session_joined_rows obtain c0 c5 c10 c20 where
    jn: "joined example_session = Some [(0, c0), (5, c5), (10, c10), (20, c20)]"
    by auto
  have run: "timeshift_timestamp 1000 example_session
      = Returned (example_session\<lparr>start_times := [(''BVP'', 1000), (''HR'', 1010), (''IBI'', 1000)],
               tags := Some [1000],
               BVP := Some [(1000, 51), (1005, 52), (1010, 53)],
               HR := Some [(1000, 70), (1010, 71)],
               joined := Some [(1000, c0), (1005, c5), (1010, c10), (1020, c20)]\<rparr>)"
    by (simp add: timeshift_timestamp_def anchor_start_times_def anchor_all_tags_def anchor_tags_def
        update_ACC_def update_BVP_def update_EDA_def update_HR_def update_TEMP_def update_joined_def
        anchor_index_def frame_index_def in_range_def ts_min_def ts_max_def Let_def sig jn)
  show ?thesis
    by (simp add: run sig frame_index_def)
qed

text \<open>
  C2, at the same session. A relative shift by 100 moves the start times, the tag, the
  signals and the joined frame by 100. The inter-beat intervals are not in the list of
  frames the shift visits: their timestamps stay at 3 and 11 while their start time moves
  from 0 to 100, so the offsets that \<^verbatim>\<open>_write_ibi\<close> writes change from 3 and 11 to
  -97 and -89.
\<close>

theorem relative_shift_skips_IBI:
  "EmpaticaReader_timeshift (Timedelta 100) example_session
     = Returned (outcome_state (EmpaticaReader_timeshift (Timedelta 100) example_session)) \<and>
   start_times (outcome_state (EmpaticaReader_timeshift (Timedelta 100) example_session))
     = [(''BVP'', 100), (''HR'', 110), (''IBI'', 100)] \<and>
   tags (outcome_state (EmpaticaReader_timeshift (Timedelta 100) example_session)) = Some [107] \<and>
   map_option frame_index (BVP (outcome_state (EmpaticaReader_timeshift (Timedelta 100) example_session)))
     = Some [100, 105, 110] \<and>
   map_option frame_index (HR (outcome_state (EmpaticaReader_timeshift (Timedelta 100) example_session)))
     = Some [110, 120] \<and>
   map_option frame_index (joined (outcome_state (EmpaticaReader_timeshift (Timedelta 100) example_session)))
     = Some [100, 105, 110, 120] \<and>
   map_option frame_index (IBI example_session) = Some [3, 11] \<and>
   map_option frame_index (IBI (outcome_state (EmpaticaReader_timeshift (Timedelta 100) example_session)))
     = Some [3, 11] \<and>
   write_ibi_offsets example_session = Inr [3, 11] \<and>
   write_ibi_offsets (outcome_state (EmpaticaReader_timeshift (Timedelta 100) example_session))
     = Inr [- 97, - 89]"
proof -
  note sig = example_session_signals
  from example_session_joined_rows obtain c0 c5 c10 c20 where
    jn: "joined example_session = Some [(0, c0), (5, c5), (10, c10), (20, c20)]"
    by auto
  have "\<forall>t \<in> set (visited_instants example_session). in_range (t + 100)"
    by (simp add: example_session_visited in_range_def ts_min_def ts_max_def)
  note run = timeshift_timedelta_returns [OF this]
  show ?thesis
    by (simp add: run sig jn frame_index_def write_ibi_offsets_def)
qed

text \<open>
  A relative shift that leaves the range ends part-way. Here the start time of the blood
  volume pulse can be moved by the largest duration and the start time of the heart rate
  cannot: the call raises \<^verbatim>\<open>OutOfBoundsDatetime\<close> with the first start time moved and
  everything else where it was.
\<close>

lemma relative_shift_out_of_range:
  "EmpaticaReader_timeshift (Timedelta ts_max) example_session
     = Raised OutOfBoundsDatetime
         (example_session\<lparr>start_times := [(''BVP'', ts_max), (''HR'', 10), (''IBI'', 0)]\<rparr>)"
  by (simp add: timeshift_timedelta_def shift_start_times_def example_session_signals in_range_def
      ts_min_def ts_max_def)










end
